theory Spec2Isabelle
  imports Main "HOL-Library.Word"
begin

unbundle bit_operations_syntax

section \<open>Machine integers\<close>

type_synonym u8 = "8 word"
type_synonym u16 = "16 word"
type_synonym u32 = "32 word"
type_synonym u64 = "64 word"

section \<open>Header constants\<close>

text \<open>
  The C sources under study (the VMX back-end \<^verbatim>\<open>vmx.c\<close> and the VT-d back-end
  \<^verbatim>\<open>vtd.c\<close>) take every numeric constant from headers that are not part of the
  sources at hand (\<^verbatim>\<open>asm/vmx.h\<close>, \<^verbatim>\<open>asm/processor.h\<close>, \<^verbatim>\<open>asm/vtd.h\<close>,
  \<^verbatim>\<open>jailhouse/hypercall.h\<close>, \<^verbatim>\<open>jailhouse/paging.h\<close>, the errno list). The model
  takes them as a parameter \<open>K\<close>: a record with one field per macro, named as the macro
  (\<open>sizeof_acpi_dmar_table\<close>, \<open>sizeof_acpi_dmar_drhd\<close> and \<open>offsetof_remap_structs\<close>
  are the sizes and the offset the compiler derives from the ACPI structure
  declarations). Every theorem below holds for every value of these macros unless it
  says otherwise.
\<close>

record errno_h =
  EPERM :: int
  EIO :: int
  ENOMEM :: int
  EBUSY :: int
  ENODEV :: int
  ERANGE :: int
  ENOSYS :: int

record hypercall_h = errno_h +
  JAILHOUSE_HC_DISABLE :: u64
  JAILHOUSE_HC_CELL_CREATE :: u64
  JAILHOUSE_HC_CELL_DESTROY :: u64
  JAILHOUSE_MEM_READ :: u32
  JAILHOUSE_MEM_WRITE :: u32
  JAILHOUSE_MEM_EXECUTE :: u32
  JAILHOUSE_MEM_DMA :: u32

record processor_h = hypercall_h +
  X86_FEATURE_VMX :: u32
  X86_CR0_PE :: u64
  X86_CR0_ET :: u64
  X86_CR0_NW :: u64
  X86_CR0_CD :: u64
  X86_CR0_PG :: u64
  X86_CR4_VMXE :: u64
  X86_RFLAGS_VM :: u64
  X86_XCR0_FP :: u64
  EFER_LME :: u64
  EFER_LMA :: u64
  X86_INST_LEN_CPUID :: u32
  X86_INST_LEN_RDMSR :: u32
  X86_INST_LEN_WRMSR :: u32
  X86_INST_LEN_VMCALL :: u32
  X86_INST_LEN_MOV_TO_CR :: u32
  X86_INST_LEN_XSETBV :: u32
  GDT_DESC_CODE :: u16
  GDT_DESC_TSS :: u16
  NUM_ENTRY_REGS :: u64
  PAGE_SIZE :: u64
  PAGE_MASK :: u64
  PAGE_ADDR_MASK :: u64
  XAPIC_BASE :: u64
  APIC_BSP_PSEUDO_SIPI :: u32

record msr_h = processor_h +
  MSR_IA32_FEATURE_CONTROL :: u32
  MSR_IA32_SYSENTER_CS :: u32
  MSR_IA32_SYSENTER_ESP :: u32
  MSR_IA32_SYSENTER_EIP :: u32
  MSR_IA32_VMX_BASIC :: u32
  MSR_IA32_VMX_PINBASED_CTLS :: u32
  MSR_IA32_VMX_PROCBASED_CTLS :: u32
  MSR_IA32_VMX_EXIT_CTLS :: u32
  MSR_IA32_VMX_ENTRY_CTLS :: u32
  MSR_IA32_VMX_MISC :: u32
  MSR_IA32_VMX_CR0_FIXED0 :: u32
  MSR_IA32_VMX_CR0_FIXED1 :: u32
  MSR_IA32_VMX_CR4_FIXED0 :: u32
  MSR_IA32_VMX_CR4_FIXED1 :: u32
  MSR_IA32_VMX_PROCBASED_CTLS2 :: u32
  MSR_IA32_VMX_EPT_VPID_CAP :: u32
  MSR_IA32_VMX_TRUE_PINBASED_CTLS :: u32
  MSR_X2APIC_BASE :: u64
  MSR_X2APIC_ICR :: u64
  MSR_X2APIC_END :: u64
  FEATURE_CONTROL_LOCKED :: u64
  FEATURE_CONTROL_VMXON_ENABLED_OUTSIDE_SMX :: u64

record vmx_exit_h = msr_h +
  EXIT_REASONS_FAILED_VMENTRY :: u32
  EXIT_REASON_EXCEPTION_NMI :: u32
  EXIT_REASON_PREEMPTION_TIMER :: u32
  EXIT_REASON_CPUID :: u32
  EXIT_REASON_VMCALL :: u32
  EXIT_REASON_CR_ACCESS :: u32
  EXIT_REASON_MSR_READ :: u32
  EXIT_REASON_MSR_WRITE :: u32
  EXIT_REASON_APIC_ACCESS :: u32
  EXIT_REASON_XSETBV :: u32
  EXIT_REASON_EPT_VIOLATION :: u32
  EXIT_REASON_EPT_MISCONFIG :: u32
  APIC_ACCESS_OFFET_MASK :: u64
  APIC_ACCESS_TYPE_MASK :: u64
  APIC_ACCESS_TYPE_LINEAR_READ :: u64
  APIC_ACCESS_TYPE_LINEAR_WRITE :: u64

record vmx_h = vmx_exit_h +
  PIN_BASED_NMI_EXITING :: u64
  PIN_BASED_VMX_PREEMPTION_TIMER :: u64
  CPU_BASED_USE_IO_BITMAPS :: u64
  CPU_BASED_USE_MSR_BITMAPS :: u64
  CPU_BASED_ACTIVATE_SECONDARY_CONTROLS :: u64
  SECONDARY_EXEC_VIRTUALIZE_APIC_ACCESSES :: u64
  SECONDARY_EXEC_ENABLE_EPT :: u64
  SECONDARY_EXEC_UNRESTRICTED_GUEST :: u64
  EPT_TYPE_WRITEBACK :: u64
  EPT_PAGE_WALK_LEN :: u64
  EPT_MANDATORY_FEATURES :: u64
  EPT_INVEPT_SINGLE :: u64
  EPT_INVEPT_GLOBAL :: u64
  VMX_MISC_ACTIVITY_HLT :: u64
  VM_EXIT_HOST_ADDR_SPACE_SIZE :: u64
  VM_EXIT_SAVE_IA32_EFER :: u64
  VM_EXIT_LOAD_IA32_EFER :: u64
  VM_ENTRY_IA32E_MODE :: u64
  VM_ENTRY_LOAD_IA32_EFER :: u64
  GUEST_ACTIVITY_ACTIVE :: u32
  GUEST_ACTIVITY_HLT :: u32

record hdr = vmx_h +
  VTD_CAP_SAGAW39 :: u64
  VTD_CAP_SAGAW48 :: u64
  VTD_CAP_CM :: u64
  VTD_CAP_NUM_DID_MASK :: u64
  VTD_CAP_REG :: u64
  VTD_ECAP_REG :: u64
  VTD_ECAP_IRO_MASK :: u64
  VTD_ECAP_IRO_SHIFT :: nat
  VTD_GCMD_REG :: u64
  VTD_GCMD_SRTP :: u32
  VTD_GCMD_TE :: u32
  VTD_GSTS_REG :: u64
  VTD_GSTS_SRTP :: u32
  VTD_GSTS_TES :: u32
  VTD_RTADDR_REG :: u64
  VTD_CCMD_REG :: u64
  VTD_CCMD_ICC :: u64
  VTD_CCMD_CIRG_GLOBAL :: u64
  VTD_CCMD_CIRG_DOMAIN :: u64
  VTD_IOTLB_REG :: u64
  VTD_IOTLB_DID_SHIFT :: nat
  VTD_IOTLB_DW :: u64
  VTD_IOTLB_DR :: u64
  VTD_IOTLB_IVT :: u64
  VTD_IOTLB_IIRG_GLOBAL :: u64
  VTD_IOTLB_IIRG_DOMAIN :: u64
  VTD_ROOT_PRESENT :: u64
  VTD_CTX_PRESENT :: u64
  VTD_CTX_FPD :: u64
  VTD_CTX_TTYPE_MLP_UNTRANS :: u64
  VTD_CTX_AGAW_39 :: u64
  VTD_CTX_AGAW_48 :: u64
  VTD_CTX_DID_SHIFT :: nat
  VTD_PAGE_READ :: u32
  VTD_PAGE_WRITE :: u32
  ACPI_DMAR_DRHD :: u16
  sizeof_acpi_dmar_table :: nat
  sizeof_acpi_dmar_drhd :: nat
  offsetof_remap_structs :: nat
  PAGE_DIR_LEVELS :: u32
  PAGE_DEFAULT_FLAGS :: u64
  PAGE_FLAG_UNCACHED :: u64

section \<open>Data model of the VMX back-end\<close>

subsection \<open>VMCS fields\<close>

text \<open>
  A VMCS field is named by its macro. The eight guest segment registers share four
  fields each; the source reaches a segment's base, limit and access rights as
  \<^verbatim>\<open>selector_field + GUEST_SEG_BASE\<close> and so on (\<^verbatim>\<open>vmx_set_guest_segment\<close>), which
  is \<open>GUEST_BASE seg\<close> here, and the macro \<^verbatim>\<open>GUEST_CS_SELECTOR\<close> is
  \<open>GUEST_SELECTOR CS\<close>.
\<close>

datatype seg_reg = CS | DS | ES | FS | GS | SS | TR | LDTR

datatype host_field =
    HOST_CR0 | HOST_CR3 | HOST_CR4
  | HOST_CS_SELECTOR | HOST_DS_SELECTOR | HOST_ES_SELECTOR | HOST_SS_SELECTOR
  | HOST_FS_SELECTOR | HOST_GS_SELECTOR | HOST_TR_SELECTOR
  | HOST_FS_BASE | HOST_GS_BASE | HOST_TR_BASE | HOST_GDTR_BASE | HOST_IDTR_BASE
  | HOST_IA32_EFER | HOST_IA32_SYSENTER_CS | HOST_IA32_SYSENTER_EIP
  | HOST_IA32_SYSENTER_ESP | HOST_RSP | HOST_RIP

datatype guest_field =
    GUEST_CR0 | GUEST_CR3 | GUEST_CR4
  | GUEST_GDTR_BASE | GUEST_GDTR_LIMIT | GUEST_IDTR_BASE | GUEST_IDTR_LIMIT
  | GUEST_RFLAGS | GUEST_RSP | GUEST_RIP
  | GUEST_SYSENTER_CS | GUEST_SYSENTER_EIP | GUEST_SYSENTER_ESP | GUEST_DR7
  | GUEST_ACTIVITY_STATE | GUEST_INTERRUPTIBILITY_INFO | GUEST_PENDING_DBG_EXCEPTIONS
  | GUEST_IA32_EFER | GUEST_PHYSICAL_ADDRESS | GUEST_LINEAR_ADDRESS

datatype ctrl_field =
    CR0_READ_SHADOW | CR4_READ_SHADOW | CR0_GUEST_HOST_MASK | CR4_GUEST_HOST_MASK
  | VMCS_LINK_POINTER | VM_ENTRY_INTR_INFO_FIELD | PIN_BASED_VM_EXEC_CONTROL
  | VMX_PREEMPTION_TIMER_VALUE | CPU_BASED_VM_EXEC_CONTROL | MSR_BITMAP
  | SECONDARY_VM_EXEC_CONTROL | APIC_ACCESS_ADDR | IO_BITMAP_A | IO_BITMAP_B
  | EPT_POINTER | EXCEPTION_BITMAP | VM_EXIT_CONTROLS | VM_EXIT_MSR_STORE_COUNT
  | VM_EXIT_MSR_LOAD_COUNT | VM_ENTRY_MSR_LOAD_COUNT | VM_ENTRY_CONTROLS
  | CR3_TARGET_COUNT

datatype info_field =
    VM_INSTRUCTION_ERROR | VM_EXIT_REASON | EXIT_QUALIFICATION
  | IDT_VECTORING_INFO_FIELD | VM_EXIT_INTR_INFO

datatype vmcs_field =
    Host host_field | Guest guest_field | Ctrl ctrl_field | Info info_field
  | GUEST_SELECTOR seg_reg | GUEST_BASE seg_reg | GUEST_LIMIT seg_reg
  | GUEST_AR_BYTES seg_reg

subsection \<open>Cells and their configuration\<close>

record jailhouse_memory =
  phys_start :: u64
  virt_start :: u64
  mem_size :: u64
  access_flags :: u32

record jailhouse_pci_device =
  pci_domain :: u32
  bus :: u8
  devfn :: u8

text \<open>
  A cell descriptor is a header followed by its arrays. \<open>mem_regions\<close>,
  \<open>pci_devices\<close> and \<open>pio_bitmap\<close> are the arrays that
  \<^verbatim>\<open>jailhouse_cell_mem_regions\<close>, \<^verbatim>\<open>jailhouse_cell_pci_devices\<close> and
  \<^verbatim>\<open>jailhouse_cell_pio_bitmap\<close> point to. The header fields
  \<^verbatim>\<open>num_memory_regions\<close>, \<^verbatim>\<open>num_pci_devices\<close> and \<^verbatim>\<open>pio_bitmap_size\<close> give
  their lengths, so they are the lengths of the lists here.
\<close>

record jailhouse_cell_desc =
  cell_name :: string
  mem_regions :: "jailhouse_memory list"
  pci_devices :: "jailhouse_pci_device list"
  pio_bitmap :: "u8 list"

definition pio_bitmap_size :: "jailhouse_cell_desc \<Rightarrow> nat" where
  "pio_bitmap_size cfg = length (pio_bitmap cfg)"

text \<open>
  \<open>ept\<close> and \<open>page_table\<close> are pointers to a page; \<open>io_bitmap\<close> is the byte array
  \<^verbatim>\<open>cell->vmx.io_bitmap\<close> and \<open>io_bitmap_hvirt\<close> the address of that array.
\<close>

record vmx_cell =
  ept :: u64
  io_bitmap :: "u8 list"
  io_bitmap_hvirt :: u64

record vtd_cell =
  page_table :: u64

record cell =
  cell_id :: u32
  config :: jailhouse_cell_desc
  vmx :: vmx_cell
  vtd :: vtd_cell

subsection \<open>Per-CPU data and guest registers\<close>

datatype vmx_state_t = VMXOFF | VMXON | VMCS_READY

record segment =
  selector :: u16
  base :: u64
  limit :: u32
  access_rights :: u32

record desc_table_reg =
  dtr_limit :: u16
  dtr_base :: u64

record vmcs_region =
  revision_id :: u32
  shadow_indicator :: bool

text \<open>
  \<open>vmx_state\<close> is the virtualization-enablement state: OFF, ON (VMXON executed) or
  READY (VMCS configured). \<open>cell\<close> is the cell that \<^verbatim>\<open>cpu_data->cell\<close> points to; the
  functions below only read it. \<open>stack_top\<close> is
  \<^verbatim>\<open>(unsigned long)cpu_data->stack + sizeof(cpu_data->stack)\<close>.
\<close>

record per_cpu =
  cpu_id :: u32
  vmx_state :: vmx_state_t
  cell :: cell
  stack_top :: u64
  linux_sp :: u64
  linux_ip :: u64
  linux_cr3 :: u64
  linux_gdtr :: desc_table_reg
  linux_idtr :: desc_table_reg
  linux_cs :: segment
  linux_ds :: segment
  linux_es :: segment
  linux_fs :: segment
  linux_gs :: segment
  linux_tss :: segment
  linux_efer :: u64
  linux_sysenter_cs :: u64
  linux_sysenter_eip :: u64
  linux_sysenter_esp :: u64
  vmxon_region :: vmcs_region
  vmcs_region :: vmcs_region

text \<open>
  \<^verbatim>\<open>struct registers\<close> in the order in which \<^verbatim>\<open>vm_exit\<close> (entry.S) pushes the
  registers: the last one pushed, r15, is the first word of the structure.
\<close>

record registers =
  r15 :: u64
  r14 :: u64
  r13 :: u64
  r12 :: u64
  r11 :: u64
  r10 :: u64
  r9 :: u64
  r8 :: u64
  rdi :: u64
  rsi :: u64
  rbp :: u64
  unused :: u64
  rbx :: u64
  rdx :: u64
  rcx :: u64
  rax :: u64

subsection \<open>The trace of a run\<close>

text \<open>
  What a run does beyond changing the state is recorded in a trace: console output
  (\<^verbatim>\<open>printk\<close>, \<^verbatim>\<open>panic_printk\<close>, with the format string less its final newline and the
  arguments), the end of the run in \<^verbatim>\<open>panic_stop\<close>, the VMX instructions executed, the
  values stored to \<^verbatim>\<open>cpu_data->vmx_state\<close>, stores to guest memory, and the cache
  flushes of the VT-d code (\<^verbatim>\<open>flush_cache\<close> of the low word of a root entry, given by
  its bus, or of \<open>n\<close> bytes of a context entry, given by its table and index).
\<close>

datatype parg = Num u64 | Str string | Fld vmcs_field

datatype insn = Insn_vmxon | Insn_vmclear | Insn_vmptrld | Insn_vmxoff | Insn_xsetbv u64

datatype event =
    Printk string "parg list"
  | Panic_printk string "parg list"
  | Panic_stop
  | Insn insn
  | Vmx_state_store vmx_state_t
  | Mem_store u64 u64
  | Flush_root_entry u8
  | Flush_context_entry u64 u8 nat

subsection \<open>The machine one CPU sees\<close>

record 'x machine =
  vmcs :: "vmcs_field \<Rightarrow> u64"
  cr0 :: u64
  cr3 :: u64
  cr4 :: u64
  gdtr_base :: u64
  idtr_base :: u64
  msr :: "u32 \<Rightarrow> u64"
  vmx_true_msr_offs :: u32
  guest_regs :: registers
  cpu_data :: per_cpu
  trace :: "event list"
  ext :: 'x

text \<open>
  The environment of a call: how the hardware answers (CPUID, whether a VMX instruction
  or a VMWRITE of a field succeeds), addresses of hypervisor objects, what
  \<^verbatim>\<open>acpi_find_table("DMAR", NULL)\<close> finds (\<open>None\<close> for \<^verbatim>\<open>NULL\<close>), and the functions
  of the hypervisor that live outside these sources (the APIC model, the cell manager,
  \<^verbatim>\<open>arch_cpu_restore\<close>, the page allocator and the page-table walker, MMIO accessors).
  The latter are arbitrary state transformers on state of their own, of type \<open>'x\<close>
  (page tables, memory pools, device registers; for the exit handlers also cells and
  IOMMU state). A pointer is its address, \<^verbatim>\<open>NULL\<close> is 0.
\<close>

datatype pool = Mem_pool | Remap_pool

datatype coherency = PAGE_MAP_COHERENT | PAGE_MAP_NON_COHERENT

record acpi_dmar_drhd =
  drhd_type :: u16
  drhd_length :: u16
  drhd_segment :: u16
  register_base_addr :: u64

text \<open>The DMAR table: the length field of its header, and the remapping structure
  that the bytes at a given offset from the start of the table decode to.\<close>

record acpi_dmar_table =
  header_length :: u32
  drhd_at :: "nat \<Rightarrow> acpi_dmar_drhd"

record 'x env =
  cpuid :: "u32 \<Rightarrow> u32 \<Rightarrow> u32 \<times> u32 \<times> u32 \<times> u32"
  vmxon_ok :: bool
  vmclear_ok :: bool
  vmptrld_ok :: bool
  vmwrite_ok :: "vmcs_field \<Rightarrow> bool"
  page_map_hvirt2phys :: "u64 \<Rightarrow> u64"
  vm_exit_hvirt :: u64
  msr_bitmap_hvirt :: u64
  apic_access_page_hvirt :: u64
  int_nmi :: "'x machine \<Rightarrow> 'x machine"
  apic_handle_events :: "'x machine \<Rightarrow> int \<times> 'x machine"
  apic_mmio_access :: "u64 \<Rightarrow> u64 \<Rightarrow> u32 \<Rightarrow> bool \<Rightarrow> 'x machine \<Rightarrow> u32 \<times> 'x machine"
  x2apic_handle_read :: "'x machine \<Rightarrow> 'x machine"
  x2apic_handle_write :: "'x machine \<Rightarrow> 'x machine"
  apic_handle_icr_write :: "u64 \<Rightarrow> u64 \<Rightarrow> 'x machine \<Rightarrow> 'x machine"
  shutdown :: "'x machine \<Rightarrow> int \<times> 'x machine"
  cell_create :: "u64 \<Rightarrow> 'x machine \<Rightarrow> int \<times> 'x machine"
  cell_destroy :: "u64 \<Rightarrow> 'x machine \<Rightarrow> int \<times> 'x machine"
  arch_cpu_restore :: "'x machine \<Rightarrow> 'x machine"
  acpi_find_table_DMAR :: "acpi_dmar_table option"
  hv_page_table :: u64
  root_entry_table_hvirt :: u64
  page_map_phys2hvirt :: "u64 \<Rightarrow> u64"
  page_alloc :: "pool \<Rightarrow> nat \<Rightarrow> 'x \<Rightarrow> u64 \<times> 'x"
  page_free :: "pool \<Rightarrow> u64 \<Rightarrow> nat \<Rightarrow> 'x \<Rightarrow> 'x"
  page_map_create ::
    "u64 \<Rightarrow> u64 \<Rightarrow> u64 \<Rightarrow> u64 \<Rightarrow> u64 \<Rightarrow> u64 \<Rightarrow> u32 \<Rightarrow> coherency \<Rightarrow> 'x \<Rightarrow> int \<times> 'x"
  page_map_destroy :: "u64 \<Rightarrow> u64 \<Rightarrow> u64 \<Rightarrow> u32 \<Rightarrow> coherency \<Rightarrow> 'x \<Rightarrow> 'x"
  mmio_read32 :: "u64 \<Rightarrow> 'x \<Rightarrow> u32 \<times> 'x"
  mmio_read64 :: "u64 \<Rightarrow> 'x \<Rightarrow> u64 \<times> 'x"
  mmio_write32 :: "u64 \<Rightarrow> u32 \<Rightarrow> 'x \<Rightarrow> 'x"
  mmio_write64 :: "u64 \<Rightarrow> u64 \<Rightarrow> 'x \<Rightarrow> 'x"

text \<open>How a function of the source ends: it returns to its caller, the CPU is stopped
  for good in \<^verbatim>\<open>panic_stop\<close>, or the CPU leaves the hypervisor for Linux
  (\<^verbatim>\<open>vmx_cpu_deactivate_vmm\<close>).\<close>

datatype outcome = Returned | Stopped | Deactivated

section \<open>The VMX back-end\<close>

subsection \<open>Console, hardware registers, VMX instructions\<close>

definition emit :: "event \<Rightarrow> 'x machine \<Rightarrow> 'x machine" where
  "emit e m = m\<lparr>trace := trace m @ [e]\<rparr>"

definition printk :: "string \<Rightarrow> parg list \<Rightarrow> 'x machine \<Rightarrow> 'x machine" where
  "printk fmt args m = emit (Printk fmt args) m"

definition panic_printk :: "string \<Rightarrow> parg list \<Rightarrow> 'x machine \<Rightarrow> 'x machine" where
  "panic_printk fmt args m = emit (Panic_printk fmt args) m"

definition panic_stop :: "'x machine \<Rightarrow> outcome \<times> 'x machine" where
  "panic_stop m = (Stopped, emit Panic_stop m)"

definition read_msr :: "'x machine \<Rightarrow> u32 \<Rightarrow> u64" where
  "read_msr m index = msr m index"

definition write_msr :: "u32 \<Rightarrow> u64 \<Rightarrow> 'x machine \<Rightarrow> 'x machine" where
  "write_msr index val m = m\<lparr>msr := (msr m)(index := val)\<rparr>"

definition write_cr4 :: "u64 \<Rightarrow> 'x machine \<Rightarrow> 'x machine" where
  "write_cr4 val m = m\<lparr>cr4 := val\<rparr>"

definition cpuid_eax :: "'x env \<Rightarrow> u32 \<Rightarrow> u32" where
  "cpuid_eax E op = (case cpuid E op 0 of (a, b, c, d) \<Rightarrow> a)"

definition cpuid_ecx :: "'x env \<Rightarrow> u32 \<Rightarrow> u32" where
  "cpuid_ecx E op = (case cpuid E op 0 of (a, b, c, d) \<Rightarrow> c)"

definition set_vmx_state :: "vmx_state_t \<Rightarrow> 'x machine \<Rightarrow> 'x machine" where
  "set_vmx_state v m = emit (Vmx_state_store v) (m\<lparr>cpu_data := (cpu_data m)\<lparr>vmx_state := v\<rparr>\<rparr>)"

definition vmxon :: "'x env \<Rightarrow> 'x machine \<Rightarrow> bool \<times> 'x machine" where
  "vmxon E m = (vmxon_ok E, emit (Insn Insn_vmxon) m)"

definition vmcs_clear :: "'x env \<Rightarrow> 'x machine \<Rightarrow> bool \<times> 'x machine" where
  "vmcs_clear E m = (vmclear_ok E, emit (Insn Insn_vmclear) m)"

definition vmcs_load :: "'x env \<Rightarrow> 'x machine \<Rightarrow> bool \<times> 'x machine" where
  "vmcs_load E m = (vmptrld_ok E, emit (Insn Insn_vmptrld) m)"

definition vmcs_read64 :: "'x machine \<Rightarrow> vmcs_field \<Rightarrow> u64" where
  "vmcs_read64 m field = vmcs m field"

definition vmcs_read16 :: "'x machine \<Rightarrow> vmcs_field \<Rightarrow> u16" where
  "vmcs_read16 m field = ucast (vmcs_read64 m field)"

definition vmcs_read32 :: "'x machine \<Rightarrow> vmcs_field \<Rightarrow> u32" where
  "vmcs_read32 m field = ucast (vmcs_read64 m field)"

text \<open>
  \<^verbatim>\<open>vmcs_write64\<close>: the VMWRITE either stores the value or fails, and the failure is
  reported on the console (the caller's address, the last argument of the message, is
  left out of the trace).
\<close>

definition vmcs_write64 :: "'x env \<Rightarrow> vmcs_field \<Rightarrow> u64 \<Rightarrow> 'x machine \<Rightarrow> bool \<times> 'x machine" where
  "vmcs_write64 E field val m =
     (if vmwrite_ok E field then (True, m\<lparr>vmcs := (vmcs m)(field := val)\<rparr>)
      else (False,
            printk ''FATAL: vmwrite %08lx failed, error %d, caller %p''
              [Fld field, Num (ucast (vmcs_read32 m (Info VM_INSTRUCTION_ERROR)))] m))"

definition vmcs_write16 :: "'x env \<Rightarrow> vmcs_field \<Rightarrow> u16 \<Rightarrow> 'x machine \<Rightarrow> bool \<times> 'x machine" where
  "vmcs_write16 E field val m = vmcs_write64 E field (ucast val) m"

definition vmcs_write32 :: "'x env \<Rightarrow> vmcs_field \<Rightarrow> u32 \<Rightarrow> 'x machine \<Rightarrow> bool \<times> 'x machine" where
  "vmcs_write32 E field val m = vmcs_write64 E field (ucast val) m"

text \<open>
  A run of statements \<^verbatim>\<open>ok &= f(...)\<close>: every one is executed, in order, whatever
  the earlier ones returned, and \<open>ok\<close> is the conjunction of the results.
\<close>

primrec ok_and :: "('s \<Rightarrow> bool \<times> 's) list \<Rightarrow> bool \<Rightarrow> 's \<Rightarrow> bool \<times> 's" where
  "ok_and [] ok s = (ok, s)"
| "ok_and (w # ws) ok s = (case w s of (r, s') \<Rightarrow> ok_and ws (ok \<and> r) s')"

subsection \<open>Guest control registers, segments, cell configuration\<close>

definition vmx_set_guest_cr :: "hdr \<Rightarrow> 'x env \<Rightarrow> u64 \<Rightarrow> u64 \<Rightarrow> 'x machine \<Rightarrow> bool \<times> 'x machine" where
  "vmx_set_guest_cr K E cr val0 m =
     (let fixed0 = read_msr m (if cr \<noteq> 0 then MSR_IA32_VMX_CR4_FIXED0 K
                               else MSR_IA32_VMX_CR0_FIXED0 K);
          fixed1_0 = read_msr m (if cr \<noteq> 0 then MSR_IA32_VMX_CR4_FIXED1 K
                                 else MSR_IA32_VMX_CR0_FIXED1 K);
          required1_0 = fixed0 AND fixed1_0;
          fixed1 = (if cr = 0 then fixed1_0 AND NOT (X86_CR0_NW K OR X86_CR0_CD K)
                    else fixed1_0);
          required1 = (if cr = 0
                       then (required1_0 AND NOT (X86_CR0_PE K OR X86_CR0_PG K)) OR X86_CR0_ET K
                       else required1_0);
          val = (if cr = 0 then val0 else val0 OR X86_CR4_VMXE K)
      in ok_and
           [vmcs_write64 E (if cr \<noteq> 0 then Guest GUEST_CR4 else Guest GUEST_CR0)
              ((val AND fixed1) OR required1),
            vmcs_write64 E (if cr \<noteq> 0 then Ctrl CR4_READ_SHADOW else Ctrl CR0_READ_SHADOW) val,
            vmcs_write64 E (if cr \<noteq> 0 then Ctrl CR4_GUEST_HOST_MASK else Ctrl CR0_GUEST_HOST_MASK)
              (required1 OR NOT fixed1)]
           True m)"

definition vmx_set_cell_config :: "hdr \<Rightarrow> 'x env \<Rightarrow> cell \<Rightarrow> 'x machine \<Rightarrow> bool \<times> 'x machine" where
  "vmx_set_cell_config K E c m =
     (let io_bitmap = io_bitmap_hvirt (vmx c)
      in ok_and
           [vmcs_write64 E (Ctrl IO_BITMAP_A) (page_map_hvirt2phys E io_bitmap),
            vmcs_write64 E (Ctrl IO_BITMAP_B) (page_map_hvirt2phys E (io_bitmap + PAGE_SIZE K)),
            vmcs_write64 E (Ctrl EPT_POINTER)
              (page_map_hvirt2phys E (ept (vmx c)) OR EPT_TYPE_WRITEBACK K OR EPT_PAGE_WALK_LEN K)]
           True m)"

definition vmx_set_guest_segment :: "'x env \<Rightarrow> segment \<Rightarrow> seg_reg \<Rightarrow> 'x machine \<Rightarrow> bool \<times> 'x machine" where
  "vmx_set_guest_segment E seg sr m =
     ok_and
       [vmcs_write16 E (GUEST_SELECTOR sr) (selector seg),
        vmcs_write64 E (GUEST_BASE sr) (base seg),
        vmcs_write32 E (GUEST_LIMIT sr) (limit seg),
        vmcs_write32 E (GUEST_AR_BYTES sr) (access_rights seg)]
       True m"

definition invalid_seg :: segment where
  "invalid_seg = \<lparr>selector = 0, base = 0, limit = 0, access_rights = 0x10000\<rparr>"

subsection \<open>Setting up the VMCS\<close>

definition vmcs_setup :: "hdr \<Rightarrow> 'x env \<Rightarrow> 'x machine \<Rightarrow> bool \<times> 'x machine" where
  "vmcs_setup K E m0 =
     ok_and
       [(\<lambda>m. vmcs_write64 E (Host HOST_CR0) (cr0 m) m),
        (\<lambda>m. vmcs_write64 E (Host HOST_CR3) (cr3 m) m),
        (\<lambda>m. vmcs_write64 E (Host HOST_CR4) (cr4 m) m),
        vmcs_write16 E (Host HOST_CS_SELECTOR) (GDT_DESC_CODE K * 8),
        vmcs_write16 E (Host HOST_DS_SELECTOR) 0,
        vmcs_write16 E (Host HOST_ES_SELECTOR) 0,
        vmcs_write16 E (Host HOST_SS_SELECTOR) 0,
        vmcs_write16 E (Host HOST_FS_SELECTOR) 0,
        vmcs_write16 E (Host HOST_GS_SELECTOR) 0,
        vmcs_write16 E (Host HOST_TR_SELECTOR) (GDT_DESC_TSS K * 8),
        vmcs_write64 E (Host HOST_FS_BASE) 0,
        vmcs_write64 E (Host HOST_GS_BASE) 0,
        vmcs_write64 E (Host HOST_TR_BASE) 0,
        (\<lambda>m. vmcs_write64 E (Host HOST_GDTR_BASE) (gdtr_base m) m),
        (\<lambda>m. vmcs_write64 E (Host HOST_IDTR_BASE) (idtr_base m) m),
        vmcs_write64 E (Host HOST_IA32_EFER) (EFER_LMA K OR EFER_LME K),
        vmcs_write32 E (Host HOST_IA32_SYSENTER_CS) 0,
        vmcs_write64 E (Host HOST_IA32_SYSENTER_EIP) 0,
        vmcs_write64 E (Host HOST_IA32_SYSENTER_ESP) 0,
        (\<lambda>m. vmcs_write64 E (Host HOST_RSP) (stack_top (cpu_data m)) m),
        vmcs_write64 E (Host HOST_RIP) (vm_exit_hvirt E),
        (\<lambda>m. vmx_set_guest_cr K E 0 (cr0 m) m),
        (\<lambda>m. vmx_set_guest_cr K E 4 (cr4 m) m),
        (\<lambda>m. vmcs_write64 E (Guest GUEST_CR3) (linux_cr3 (cpu_data m)) m),
        (\<lambda>m. vmx_set_guest_segment E (linux_cs (cpu_data m)) CS m),
        (\<lambda>m. vmx_set_guest_segment E (linux_ds (cpu_data m)) DS m),
        (\<lambda>m. vmx_set_guest_segment E (linux_es (cpu_data m)) ES m),
        (\<lambda>m. vmx_set_guest_segment E (linux_fs (cpu_data m)) FS m),
        (\<lambda>m. vmx_set_guest_segment E (linux_gs (cpu_data m)) GS m),
        vmx_set_guest_segment E invalid_seg SS,
        (\<lambda>m. vmx_set_guest_segment E (linux_tss (cpu_data m)) TR m),
        vmx_set_guest_segment E invalid_seg LDTR,
        (\<lambda>m. vmcs_write64 E (Guest GUEST_GDTR_BASE) (dtr_base (linux_gdtr (cpu_data m))) m),
        (\<lambda>m. vmcs_write32 E (Guest GUEST_GDTR_LIMIT) (ucast (dtr_limit (linux_gdtr (cpu_data m)))) m),
        (\<lambda>m. vmcs_write64 E (Guest GUEST_IDTR_BASE) (dtr_base (linux_idtr (cpu_data m))) m),
        (\<lambda>m. vmcs_write32 E (Guest GUEST_IDTR_LIMIT) (ucast (dtr_limit (linux_idtr (cpu_data m)))) m),
        vmcs_write64 E (Guest GUEST_RFLAGS) 0x02,
        (\<lambda>m. vmcs_write64 E (Guest GUEST_RSP)
                (linux_sp (cpu_data m) + (NUM_ENTRY_REGS K + 1) * 8) m),
        (\<lambda>m. vmcs_write64 E (Guest GUEST_RIP) (linux_ip (cpu_data m)) m),
        (\<lambda>m. vmcs_write32 E (Guest GUEST_SYSENTER_CS)
                (ucast (read_msr m (MSR_IA32_SYSENTER_CS K))) m),
        (\<lambda>m. vmcs_write64 E (Guest GUEST_SYSENTER_EIP) (read_msr m (MSR_IA32_SYSENTER_EIP K)) m),
        (\<lambda>m. vmcs_write64 E (Guest GUEST_SYSENTER_ESP) (read_msr m (MSR_IA32_SYSENTER_ESP K)) m),
        vmcs_write64 E (Guest GUEST_DR7) 0x00000400,
        vmcs_write32 E (Guest GUEST_ACTIVITY_STATE) (GUEST_ACTIVITY_ACTIVE K),
        vmcs_write32 E (Guest GUEST_INTERRUPTIBILITY_INFO) 0,
        vmcs_write64 E (Guest GUEST_PENDING_DBG_EXCEPTIONS) 0,
        (\<lambda>m. vmcs_write64 E (Guest GUEST_IA32_EFER) (linux_efer (cpu_data m)) m),
        vmcs_write64 E (Ctrl VMCS_LINK_POINTER) (- 1),
        vmcs_write32 E (Ctrl VM_ENTRY_INTR_INFO_FIELD) 0,
        (\<lambda>m. vmcs_write32 E (Ctrl PIN_BASED_VM_EXEC_CONTROL)
                (ucast (read_msr m (MSR_IA32_VMX_PINBASED_CTLS K + vmx_true_msr_offs m)
                        OR PIN_BASED_NMI_EXITING K)) m),
        vmcs_write32 E (Ctrl VMX_PREEMPTION_TIMER_VALUE) 0,
        (\<lambda>m. vmcs_write32 E (Ctrl CPU_BASED_VM_EXEC_CONTROL)
                (ucast (read_msr m (MSR_IA32_VMX_PROCBASED_CTLS K + vmx_true_msr_offs m)
                        OR (CPU_BASED_USE_IO_BITMAPS K OR CPU_BASED_USE_MSR_BITMAPS K OR
                            CPU_BASED_ACTIVATE_SECONDARY_CONTROLS K))) m),
        vmcs_write64 E (Ctrl MSR_BITMAP) (page_map_hvirt2phys E (msr_bitmap_hvirt E)),
        (\<lambda>m. vmcs_write32 E (Ctrl SECONDARY_VM_EXEC_CONTROL)
                (ucast (read_msr m (MSR_IA32_VMX_PROCBASED_CTLS2 K)
                        OR (SECONDARY_EXEC_VIRTUALIZE_APIC_ACCESSES K OR
                            SECONDARY_EXEC_ENABLE_EPT K OR SECONDARY_EXEC_UNRESTRICTED_GUEST K))) m),
        vmcs_write64 E (Ctrl APIC_ACCESS_ADDR) (page_map_hvirt2phys E (apic_access_page_hvirt E)),
        (\<lambda>m. vmx_set_cell_config K E (cell (cpu_data m)) m),
        vmcs_write32 E (Ctrl EXCEPTION_BITMAP) 0,
        (\<lambda>m. vmcs_write32 E (Ctrl VM_EXIT_CONTROLS)
                (ucast (read_msr m (MSR_IA32_VMX_EXIT_CTLS K + vmx_true_msr_offs m)
                        OR (VM_EXIT_HOST_ADDR_SPACE_SIZE K OR VM_EXIT_SAVE_IA32_EFER K OR
                            VM_EXIT_LOAD_IA32_EFER K))) m),
        vmcs_write32 E (Ctrl VM_EXIT_MSR_STORE_COUNT) 0,
        vmcs_write32 E (Ctrl VM_EXIT_MSR_LOAD_COUNT) 0,
        vmcs_write32 E (Ctrl VM_ENTRY_MSR_LOAD_COUNT) 0,
        (\<lambda>m. vmcs_write32 E (Ctrl VM_ENTRY_CONTROLS)
                (ucast (read_msr m (MSR_IA32_VMX_ENTRY_CTLS K + vmx_true_msr_offs m)
                        OR (VM_ENTRY_IA32E_MODE K OR VM_ENTRY_LOAD_IA32_EFER K))) m),
        vmcs_write64 E (Ctrl CR4_GUEST_HOST_MASK) 0,
        vmcs_write32 E (Ctrl CR3_TARGET_COUNT) 0]
       True m0"

subsection \<open>Enabling and disabling VMX on a CPU\<close>

text \<open>
  The second half of \<^verbatim>\<open>vmx_cpu_init\<close>, from \<^verbatim>\<open>write_cr4(cr4 | X86_CR4_VMXE)\<close> on:
  VMXON, then clearing, loading and setting up the VMCS. \<open>cr4v\<close> is the local
  variable \<^verbatim>\<open>cr4\<close>.
\<close>

definition vmx_cpu_init_enable :: "hdr \<Rightarrow> 'x env \<Rightarrow> u64 \<Rightarrow> 'x machine \<Rightarrow> int \<times> 'x machine" where
  "vmx_cpu_init_enable K E cr4v m3 =
     (let m4 = write_cr4 (cr4v OR X86_CR4_VMXE K) m3 in
      case vmxon E m4 of (on, m5) \<Rightarrow>
      if \<not> on then (- EIO K, write_cr4 cr4v m5)
      else let m6 = set_vmx_state VMXON m5 in
      case vmcs_clear E m6 of (cleared, m7) \<Rightarrow>
      if \<not> cleared then (- EIO K, m7)
      else case vmcs_load E m7 of (loaded, m8) \<Rightarrow>
      if \<not> loaded then (- EIO K, m8)
      else case vmcs_setup K E m8 of (set_up, m9) \<Rightarrow>
      if \<not> set_up then (- EIO K, m9)
      else (0, set_vmx_state VMCS_READY m9))"

text \<open>\<^verbatim>\<open>vmx_cpu_init\<close>: the checks of the hardware, then the second half above.\<close>

definition vmx_cpu_init :: "hdr \<Rightarrow> 'x env \<Rightarrow> 'x machine \<Rightarrow> int \<times> 'x machine" where
  "vmx_cpu_init K E m =
     (if cpuid_ecx E 1 AND X86_FEATURE_VMX K = 0 then (- ENODEV K, m)
      else let cr4v = cr4 m in
      if cr4v AND X86_CR4_VMXE K \<noteq> 0 then (- EBUSY K, m)
      else let vmx_basic = read_msr m (MSR_IA32_VMX_BASIC K) in
      if PAGE_SIZE K < (drop_bit 32 vmx_basic AND 0x1fff) then (- EIO K, m)
      else if drop_bit 50 vmx_basic AND 0xf \<noteq> EPT_TYPE_WRITEBACK K then (- EIO K, m)
      else let m1 = (if vmx_basic AND push_bit 55 1 \<noteq> 0
                     then m\<lparr>vmx_true_msr_offs :=
                            MSR_IA32_VMX_TRUE_PINBASED_CTLS K - MSR_IA32_VMX_PINBASED_CTLS K\<rparr>
                     else m);
               vmx_pin_ctrl = drop_bit 32
                 (read_msr m1 (MSR_IA32_VMX_PINBASED_CTLS K + vmx_true_msr_offs m1)) in
      if vmx_pin_ctrl AND PIN_BASED_NMI_EXITING K = 0 \<or>
         vmx_pin_ctrl AND PIN_BASED_VMX_PREEMPTION_TIMER K = 0 then (- EIO K, m1)
      else let vmx_proc_ctrl = drop_bit 32
                 (read_msr m1 (MSR_IA32_VMX_PROCBASED_CTLS K + vmx_true_msr_offs m1)) in
      if vmx_proc_ctrl AND CPU_BASED_USE_IO_BITMAPS K = 0 \<or>
         vmx_proc_ctrl AND CPU_BASED_USE_MSR_BITMAPS K = 0 \<or>
         vmx_proc_ctrl AND CPU_BASED_ACTIVATE_SECONDARY_CONTROLS K = 0 then (- EIO K, m1)
      else let vmx_proc_ctrl2 = drop_bit 32 (read_msr m1 (MSR_IA32_VMX_PROCBASED_CTLS2 K));
               ept_cap = read_msr m1 (MSR_IA32_VMX_EPT_VPID_CAP K) in
      if vmx_proc_ctrl2 AND SECONDARY_EXEC_VIRTUALIZE_APIC_ACCESSES K = 0 \<or>
         vmx_proc_ctrl2 AND SECONDARY_EXEC_ENABLE_EPT K = 0 \<or>
         ept_cap AND EPT_MANDATORY_FEATURES K \<noteq> EPT_MANDATORY_FEATURES K \<or>
         ept_cap AND (EPT_INVEPT_SINGLE K OR EPT_INVEPT_GLOBAL K) = 0 \<or>
         vmx_proc_ctrl2 AND SECONDARY_EXEC_UNRESTRICTED_GUEST K = 0 then (- EIO K, m1)
      else if read_msr m1 (MSR_IA32_VMX_MISC K) AND VMX_MISC_ACTIVITY_HLT K = 0
      then (- EIO K, m1)
      else let rev = (ucast vmx_basic :: u32);
               m2 = m1\<lparr>cpu_data := (cpu_data m1)
                       \<lparr>vmxon_region := \<lparr>revision_id = rev, shadow_indicator = False\<rparr>,
                        vmcs_region := \<lparr>revision_id = rev, shadow_indicator = False\<rparr>\<rparr>\<rparr>;
               feature_ctrl = read_msr m2 (MSR_IA32_FEATURE_CONTROL K);
               mask_bits = FEATURE_CONTROL_LOCKED K OR FEATURE_CONTROL_VMXON_ENABLED_OUTSIDE_SMX K in
      if feature_ctrl AND mask_bits \<noteq> mask_bits \<and> feature_ctrl AND FEATURE_CONTROL_LOCKED K \<noteq> 0
      then (- ENODEV K, m2)
      else let m3 = (if feature_ctrl AND mask_bits \<noteq> mask_bits
                     then write_msr (MSR_IA32_FEATURE_CONTROL K) (feature_ctrl OR mask_bits) m2
                     else m2)
           in vmx_cpu_init_enable K E cr4v m3)"

definition vmx_cpu_exit :: "hdr \<Rightarrow> 'x env \<Rightarrow> 'x machine \<Rightarrow> 'x machine" where
  "vmx_cpu_exit K E m =
     (if vmx_state (cpu_data m) = VMXOFF then m
      else let m1 = set_vmx_state VMXOFF m;
               m2 = snd (vmcs_clear E m1);
               m3 = emit (Insn Insn_vmxoff) m2
           in write_cr4 (cr4 m3 AND NOT (X86_CR4_VMXE K)) m3)"

subsection \<open>Leaving VMX for Linux, resetting a guest CPU\<close>

definition vmx_cpu_deactivate_vmm :: "hdr \<Rightarrow> 'x env \<Rightarrow> 'x machine \<Rightarrow> outcome \<times> 'x machine" where
  "vmx_cpu_deactivate_vmm K E m =
     (let stack = vmcs_read64 m (Guest GUEST_RSP);
          linux_ip_v = vmcs_read64 m (Guest GUEST_RIP);
          c = cpu_data m;
          c' = c\<lparr>linux_cr3 := vmcs_read64 m (Guest GUEST_CR3),
                 linux_gdtr := \<lparr>dtr_limit = ucast (vmcs_read64 m (Guest GUEST_GDTR_LIMIT)),
                                dtr_base = vmcs_read64 m (Guest GUEST_GDTR_BASE)\<rparr>,
                 linux_idtr := \<lparr>dtr_limit = ucast (vmcs_read64 m (Guest GUEST_IDTR_LIMIT)),
                                dtr_base = vmcs_read64 m (Guest GUEST_IDTR_BASE)\<rparr>,
                 linux_cs := (linux_cs c)\<lparr>selector := ucast (vmcs_read32 m (GUEST_SELECTOR CS))\<rparr>,
                 linux_tss := (linux_tss c)\<lparr>selector := ucast (vmcs_read32 m (GUEST_SELECTOR TR))\<rparr>,
                 linux_efer := vmcs_read64 m (Guest GUEST_IA32_EFER),
                 linux_fs := (linux_fs c)\<lparr>base := vmcs_read64 m (GUEST_BASE FS),
                                           selector := vmcs_read16 m (GUEST_SELECTOR FS)\<rparr>,
                 linux_gs := (linux_gs c)\<lparr>base := vmcs_read64 m (GUEST_BASE GS),
                                           selector := vmcs_read16 m (GUEST_SELECTOR GS)\<rparr>,
                 linux_sysenter_cs := ucast (vmcs_read32 m (Guest GUEST_SYSENTER_CS)),
                 linux_sysenter_eip := vmcs_read64 m (Guest GUEST_SYSENTER_EIP),
                 linux_sysenter_esp := vmcs_read64 m (Guest GUEST_SYSENTER_ESP),
                 linux_ds := (linux_ds c)\<lparr>selector := vmcs_read16 m (GUEST_SELECTOR DS)\<rparr>,
                 linux_es := (linux_es c)\<lparr>selector := vmcs_read16 m (GUEST_SELECTOR ES)\<rparr>\<rparr>;
          m1 = arch_cpu_restore E (m\<lparr>cpu_data := c'\<rparr>)
      in (Deactivated, emit (Mem_store (stack - 8) linux_ip_v) m1))"

definition zero_registers :: registers where
  "zero_registers =
     \<lparr>r15 = 0, r14 = 0, r13 = 0, r12 = 0, r11 = 0, r10 = 0, r9 = 0, r8 = 0,
      rdi = 0, rsi = 0, rbp = 0, unused = 0, rbx = 0, rdx = 0, rcx = 0, rax = 0\<rparr>"

definition vmx_cpu_reset :: "hdr \<Rightarrow> 'x env \<Rightarrow> u32 \<Rightarrow> 'x machine \<Rightarrow> outcome \<times> 'x machine" where
  "vmx_cpu_reset K E sipi_vector0 m0 =
     (let val = (if sipi_vector0 = APIC_BSP_PSEUDO_SIPI K then 0xfff0 else 0);
          sipi_vector = (if sipi_vector0 = APIC_BSP_PSEUDO_SIPI K then 0xf0 else sipi_vector0)
      in case ok_and
           [vmx_set_guest_cr K E 0 (X86_CR0_NW K OR X86_CR0_CD K OR X86_CR0_ET K),
            vmx_set_guest_cr K E 4 0,
            vmcs_write64 E (Guest GUEST_CR3) 0,
            vmcs_write64 E (Guest GUEST_RFLAGS) 0x02,
            vmcs_write64 E (Guest GUEST_RSP) 0,
            vmcs_write64 E (Guest GUEST_RIP) val,
            vmcs_write16 E (GUEST_SELECTOR CS) (ucast (push_bit 8 sipi_vector)),
            vmcs_write64 E (GUEST_BASE CS) (ucast (push_bit 12 sipi_vector)),
            vmcs_write32 E (GUEST_LIMIT CS) 0xffff,
            vmcs_write32 E (GUEST_AR_BYTES CS) 0x0009b,
            vmcs_write16 E (GUEST_SELECTOR DS) 0,
            vmcs_write64 E (GUEST_BASE DS) 0,
            vmcs_write32 E (GUEST_LIMIT DS) 0xffff,
            vmcs_write32 E (GUEST_AR_BYTES DS) 0x00093,
            vmcs_write16 E (GUEST_SELECTOR ES) 0,
            vmcs_write64 E (GUEST_BASE ES) 0,
            vmcs_write32 E (GUEST_LIMIT ES) 0xffff,
            vmcs_write32 E (GUEST_AR_BYTES ES) 0x00093,
            vmcs_write16 E (GUEST_SELECTOR FS) 0,
            vmcs_write64 E (GUEST_BASE FS) 0,
            vmcs_write32 E (GUEST_LIMIT FS) 0xffff,
            vmcs_write32 E (GUEST_AR_BYTES FS) 0x00093,
            vmcs_write16 E (GUEST_SELECTOR GS) 0,
            vmcs_write64 E (GUEST_BASE GS) 0,
            vmcs_write32 E (GUEST_LIMIT GS) 0xffff,
            vmcs_write32 E (GUEST_AR_BYTES GS) 0x00093,
            vmcs_write16 E (GUEST_SELECTOR SS) 0,
            vmcs_write64 E (GUEST_BASE SS) 0,
            vmcs_write32 E (GUEST_LIMIT SS) 0xffff,
            vmcs_write32 E (GUEST_AR_BYTES SS) 0x00093,
            vmcs_write16 E (GUEST_SELECTOR TR) 0,
            vmcs_write64 E (GUEST_BASE TR) 0,
            vmcs_write32 E (GUEST_LIMIT TR) 0xffff,
            vmcs_write32 E (GUEST_AR_BYTES TR) 0x0008b,
            vmcs_write16 E (GUEST_SELECTOR LDTR) 0,
            vmcs_write64 E (GUEST_BASE LDTR) 0,
            vmcs_write32 E (GUEST_LIMIT LDTR) 0xffff,
            vmcs_write32 E (GUEST_AR_BYTES LDTR) 0x00082,
            vmcs_write64 E (Guest GUEST_GDTR_BASE) 0,
            vmcs_write32 E (Guest GUEST_GDTR_LIMIT) 0xffff,
            vmcs_write64 E (Guest GUEST_IDTR_BASE) 0,
            vmcs_write32 E (Guest GUEST_IDTR_LIMIT) 0xffff,
            vmcs_write64 E (Guest GUEST_IA32_EFER) 0,
            vmcs_write32 E (Guest GUEST_SYSENTER_CS) 0,
            vmcs_write64 E (Guest GUEST_SYSENTER_EIP) 0,
            vmcs_write64 E (Guest GUEST_SYSENTER_ESP) 0,
            vmcs_write64 E (Guest GUEST_DR7) 0x00000400,
            vmcs_write32 E (Guest GUEST_ACTIVITY_STATE) (GUEST_ACTIVITY_ACTIVE K),
            vmcs_write32 E (Guest GUEST_INTERRUPTIBILITY_INFO) 0,
            vmcs_write64 E (Guest GUEST_PENDING_DBG_EXCEPTIONS) 0,
            (\<lambda>m. vmcs_write32 E (Ctrl VM_ENTRY_CONTROLS)
                    (vmcs_read32 m (Ctrl VM_ENTRY_CONTROLS) AND NOT (ucast (VM_ENTRY_IA32E_MODE K))) m),
            (\<lambda>m. vmx_set_cell_config K E (cell (cpu_data m)) m)]
           True m0 of
         (ok, m1) \<Rightarrow>
           let m2 = m1\<lparr>guest_regs := zero_registers\<rparr>
           in if \<not> ok then panic_stop (panic_printk ''FATAL: CPU reset failed'' [] m2)
              else (Returned, m2))"

subsection \<open>Small helpers of the exit handlers\<close>

definition vmx_disable_preemption_timer :: "hdr \<Rightarrow> 'x env \<Rightarrow> 'x machine \<Rightarrow> 'x machine" where
  "vmx_disable_preemption_timer K E m =
     (let pin_based_ctrl = vmcs_read32 m (Ctrl PIN_BASED_VM_EXEC_CONTROL)
                           AND NOT (ucast (PIN_BASED_VMX_PREEMPTION_TIMER K))
      in snd (vmcs_write32 E (Ctrl PIN_BASED_VM_EXEC_CONTROL) pin_based_ctrl m))"

definition vmx_skip_emulated_instruction :: "'x env \<Rightarrow> u32 \<Rightarrow> 'x machine \<Rightarrow> 'x machine" where
  "vmx_skip_emulated_instruction E inst_len m =
     snd (vmcs_write64 E (Guest GUEST_RIP) (vmcs_read64 m (Guest GUEST_RIP) + ucast inst_len) m)"

definition update_efer :: "hdr \<Rightarrow> 'x env \<Rightarrow> 'x machine \<Rightarrow> 'x machine" where
  "update_efer K E m =
     (let efer = vmcs_read64 m (Guest GUEST_IA32_EFER)
      in if efer AND (EFER_LME K OR EFER_LMA K) \<noteq> EFER_LME K then m
         else let m1 = snd (vmcs_write64 E (Guest GUEST_IA32_EFER) (efer OR EFER_LMA K) m)
              in snd (vmcs_write32 E (Ctrl VM_ENTRY_CONTROLS)
                        (vmcs_read32 m1 (Ctrl VM_ENTRY_CONTROLS) OR ucast (VM_ENTRY_IA32E_MODE K))
                        m1))"

definition set_rax :: "u64 \<Rightarrow> 'x machine \<Rightarrow> 'x machine" where
  "set_rax v m = m\<lparr>guest_regs := (guest_regs m)\<lparr>rax := v\<rparr>\<rparr>"

text \<open>The \<open>i\<close>-th \<^verbatim>\<open>unsigned long\<close> of \<^verbatim>\<open>struct registers\<close>.\<close>

definition registers_words :: "registers \<Rightarrow> u64 list" where
  "registers_words g =
     [r15 g, r14 g, r13 g, r12 g, r11 g, r10 g, r9 g, r8 g,
      rdi g, rsi g, rbp g, unused g, rbx g, rdx g, rcx g, rax g]"

subsection \<open>Hypercalls\<close>

definition vmx_handle_hypercall :: "hdr \<Rightarrow> 'x env \<Rightarrow> 'x machine \<Rightarrow> outcome \<times> 'x machine" where
  "vmx_handle_hypercall K E m =
     (let m1 = vmx_skip_emulated_instruction E (X86_INST_LEN_VMCALL K) m
      in if (vmcs_read64 m1 (Guest GUEST_IA32_EFER) AND EFER_LMA K = 0 \<and>
             vmcs_read64 m1 (Guest GUEST_RFLAGS) AND X86_RFLAGS_VM K \<noteq> 0) \<or>
            vmcs_read16 m1 (GUEST_SELECTOR CS) AND 3 \<noteq> 0
         then (Returned, set_rax (word_of_int (- EPERM K)) m1)
         else if rax (guest_regs m1) = JAILHOUSE_HC_DISABLE K then
           (case shutdown E m1 of (r, m2) \<Rightarrow>
              let m3 = set_rax (word_of_int r) m2
              in if rax (guest_regs m3) = 0 then vmx_cpu_deactivate_vmm K E m3
                 else (Returned, m3))
         else if rax (guest_regs m1) = JAILHOUSE_HC_CELL_CREATE K then
           (case cell_create E (rdi (guest_regs m1)) m1 of (r, m2) \<Rightarrow>
              (Returned, set_rax (word_of_int r) m2))
         else if rax (guest_regs m1) = JAILHOUSE_HC_CELL_DESTROY K then
           (case cell_destroy E (rdi (guest_regs m1)) m1 of (r, m2) \<Rightarrow>
              (Returned, set_rax (word_of_int r) m2))
         else
           (Returned,
            set_rax (word_of_int (- ENOSYS K))
              (printk ''CPU %d: Unknown vmcall %d, RIP: %p''
                 [Num (ucast (cpu_id (cpu_data m1))), Num (rax (guest_regs m1)),
                  Num (vmcs_read64 m1 (Guest GUEST_RIP) - ucast (X86_INST_LEN_VMCALL K))]
                 m1)))"

subsection \<open>Control-register and APIC accesses\<close>

definition vmx_handle_cr :: "hdr \<Rightarrow> 'x env \<Rightarrow> 'x machine \<Rightarrow> bool \<times> 'x machine" where
  "vmx_handle_cr K E m =
     (let exit_qualification = vmcs_read64 m (Info EXIT_QUALIFICATION);
          cr = exit_qualification AND 0xf;
          reg = drop_bit 8 exit_qualification AND 0xf;
          unhandled = (False, panic_printk ''FATAL: Unhandled CR access, qualification %x''
                                [Num exit_qualification] m)
      in if drop_bit 4 exit_qualification AND 3 = 0 then
           (let val = (if reg = 4 then vmcs_read64 m (Guest GUEST_RSP)
                       else registers_words (guest_regs m) ! (15 - unat reg))
            in if cr = 0 \<or> cr = 4 then
                 (let m1 = vmx_skip_emulated_instruction E (X86_INST_LEN_MOV_TO_CR K) m;
                      m2 = snd (vmx_set_guest_cr K E cr val m1)
                  in (True, if cr = 0 \<and> val AND X86_CR0_PG K \<noteq> 0 then update_efer K E m2 else m2))
               else unhandled)
         else unhandled)"

definition vmx_handle_apic_access :: "hdr \<Rightarrow> 'x env \<Rightarrow> 'x machine \<Rightarrow> bool \<times> 'x machine" where
  "vmx_handle_apic_access K E m =
     (let qualification = vmcs_read64 m (Info EXIT_QUALIFICATION);
          unhandled = (False, panic_printk ''FATAL: Unhandled APIC access, qualification %x''
                                [Num qualification] m)
      in if qualification AND APIC_ACCESS_TYPE_MASK K = APIC_ACCESS_TYPE_LINEAR_READ K \<or>
            qualification AND APIC_ACCESS_TYPE_MASK K = APIC_ACCESS_TYPE_LINEAR_WRITE K
         then
           (let is_write = (qualification AND APIC_ACCESS_TYPE_LINEAR_WRITE K \<noteq> 0);
                offset = (ucast (qualification AND APIC_ACCESS_OFFET_MASK K) :: u32)
            in if offset AND 0x00f \<noteq> 0 then unhandled
               else
                 (let page_table_addr = vmcs_read64 m (Guest GUEST_CR3) AND PAGE_ADDR_MASK K
                  in case apic_mmio_access E (vmcs_read64 m (Guest GUEST_RIP)) page_table_addr
                            (drop_bit 4 offset) is_write m of
                       (inst_len, m1) \<Rightarrow>
                         if inst_len = 0 then (False, m1)
                         else (True, vmx_skip_emulated_instruction E inst_len m1)))
         else unhandled)"

subsection \<open>Diagnostics\<close>

definition dump_vm_exit_details :: "hdr \<Rightarrow> u32 \<Rightarrow> 'x machine \<Rightarrow> 'x machine" where
  "dump_vm_exit_details K reason m =
     (let m1 = panic_printk ''qualification %x''
                 [Num (vmcs_read64 m (Info EXIT_QUALIFICATION))] m;
          m2 = panic_printk ''vectoring info: %x interrupt info: %x''
                 [Num (ucast (vmcs_read32 m1 (Info IDT_VECTORING_INFO_FIELD))),
                  Num (ucast (vmcs_read32 m1 (Info VM_EXIT_INTR_INFO)))] m1
      in if reason = EXIT_REASON_EPT_VIOLATION K \<or> reason = EXIT_REASON_EPT_MISCONFIG K
         then panic_printk ''guest phys addr %p guest linear addr: %p''
                [Num (vmcs_read64 m2 (Guest GUEST_PHYSICAL_ADDRESS)),
                 Num (vmcs_read64 m2 (Guest GUEST_LINEAR_ADDRESS))] m2
         else m2)"

definition dump_guest_regs :: "hdr \<Rightarrow> 'x machine \<Rightarrow> 'x machine" where
  "dump_guest_regs K m =
     (let g = guest_regs m;
          m1 = panic_printk ''RIP: %p RSP: %p FLAGS: %x''
                 [Num (vmcs_read64 m (Guest GUEST_RIP)), Num (vmcs_read64 m (Guest GUEST_RSP)),
                  Num (vmcs_read64 m (Guest GUEST_RFLAGS))] m;
          m2 = panic_printk ''RAX: %p RBX: %p RCX: %p'' [Num (rax g), Num (rbx g), Num (rcx g)] m1;
          m3 = panic_printk ''RDX: %p RSI: %p RDI: %p'' [Num (rdx g), Num (rsi g), Num (rdi g)] m2;
          m4 = panic_printk ''CS: %x BASE: %p AR-BYTES: %x EFER.LMA %d''
                 [Num (vmcs_read64 m3 (GUEST_SELECTOR CS)), Num (vmcs_read64 m3 (GUEST_BASE CS)),
                  Num (ucast (vmcs_read32 m3 (GUEST_AR_BYTES CS))),
                  Num (if vmcs_read32 m3 (Ctrl VM_ENTRY_CONTROLS) AND ucast (VM_ENTRY_IA32E_MODE K) \<noteq> 0
                       then 1 else 0)] m3;
          m5 = panic_printk ''CR0: %p CR3: %p CR4: %p''
                 [Num (vmcs_read64 m4 (Guest GUEST_CR0)), Num (vmcs_read64 m4 (Guest GUEST_CR3)),
                  Num (vmcs_read64 m4 (Guest GUEST_CR4))] m4
      in panic_printk ''EFER: %p'' [Num (vmcs_read64 m5 (Guest GUEST_IA32_EFER))] m5)"

text \<open>The label \<^verbatim>\<open>dump_and_stop\<close> of \<^verbatim>\<open>vmx_handle_exit\<close>.\<close>

definition dump_and_stop :: "hdr \<Rightarrow> 'x machine \<Rightarrow> outcome \<times> 'x machine" where
  "dump_and_stop K m = panic_stop (dump_guest_regs K m)"

subsection \<open>The VM-exit dispatcher\<close>

definition vmx_handle_exit :: "hdr \<Rightarrow> 'x env \<Rightarrow> 'x machine \<Rightarrow> outcome \<times> 'x machine" where
  "vmx_handle_exit K E m =
     (let reason = vmcs_read32 m (Info VM_EXIT_REASON)
      in if reason AND EXIT_REASONS_FAILED_VMENTRY K \<noteq> 0 then
           dump_and_stop K
             (panic_printk ''FATAL: VM-Entry failure, reason %d''
                [Num (ucast (ucast reason :: u16))] m)
         else if reason = EXIT_REASON_EXCEPTION_NMI K \<or> reason = EXIT_REASON_PREEMPTION_TIMER K then
           (let m1 = (if reason = EXIT_REASON_EXCEPTION_NMI K then int_nmi E m else m);
                m2 = vmx_disable_preemption_timer K E m1
            in case apic_handle_events E m2 of
                 (sipi_vector, m3) \<Rightarrow>
                   if 0 \<le> sipi_vector then
                     vmx_cpu_reset K E (word_of_int sipi_vector)
                       (printk ''CPU %d received SIPI, vector %x''
                          [Num (ucast (cpu_id (cpu_data m3))), Num (word_of_int sipi_vector)] m3)
                   else (Returned, m3))
         else if reason = EXIT_REASON_CPUID K then
           (let m1 = vmx_skip_emulated_instruction E (X86_INST_LEN_CPUID K) m;
                g = guest_regs m1
            in case cpuid E (ucast (rax g AND 0xffffffff)) (ucast (rcx g AND 0xffffffff)) of
                 (a, b, c, d) \<Rightarrow>
                   (Returned,
                    m1\<lparr>guest_regs := g\<lparr>rax := ucast a, rbx := ucast b,
                                        rcx := ucast c, rdx := ucast d\<rparr>\<rparr>))
         else if reason = EXIT_REASON_VMCALL K then vmx_handle_hypercall K E m
         else if reason = EXIT_REASON_CR_ACCESS K then
           (case vmx_handle_cr K E m of
              (handled, m1) \<Rightarrow> if handled then (Returned, m1) else dump_and_stop K m1)
         else if reason = EXIT_REASON_MSR_READ K then
           (let m1 = vmx_skip_emulated_instruction E (X86_INST_LEN_RDMSR K) m
            in if MSR_X2APIC_BASE K \<le> rcx (guest_regs m1) \<and> rcx (guest_regs m1) \<le> MSR_X2APIC_END K
               then (Returned, x2apic_handle_read E m1)
               else dump_and_stop K
                      (panic_printk ''FATAL: Unhandled MSR read: %08x''
                         [Num (rcx (guest_regs m1))] m1))
         else if reason = EXIT_REASON_MSR_WRITE K then
           (let m1 = vmx_skip_emulated_instruction E (X86_INST_LEN_WRMSR K) m
            in if rcx (guest_regs m1) = MSR_X2APIC_ICR K
               then (Returned,
                     apic_handle_icr_write E (rax (guest_regs m1)) (rdx (guest_regs m1)) m1)
               else if MSR_X2APIC_BASE K \<le> rcx (guest_regs m1) \<and>
                       rcx (guest_regs m1) \<le> MSR_X2APIC_END K
               then (Returned, x2apic_handle_write E m1)
               else dump_and_stop K
                      (panic_printk ''FATAL: Unhandled MSR write: %08x''
                         [Num (rcx (guest_regs m1))] m1))
         else if reason = EXIT_REASON_APIC_ACCESS K then
           (case vmx_handle_apic_access K E m of
              (handled, m1) \<Rightarrow> if handled then (Returned, m1) else dump_and_stop K m1)
         else if reason = EXIT_REASON_XSETBV K then
           (let m1 = vmx_skip_emulated_instruction E (X86_INST_LEN_XSETBV K) m;
                g = guest_regs m1
            in if rax g AND X86_XCR0_FP K \<noteq> 0 \<and>
                  rax g AND ucast (NOT (cpuid_eax E 0x0d)) = 0 \<and>
                  rcx g = 0 \<and> rdx g = 0
               then (Returned, emit (Insn (Insn_xsetbv (rax g))) m1)
               else dump_and_stop K
                      (panic_printk ''FATAL: Invalid xsetbv parameters: xcr[%d] = %08x:%08x''
                         [Num (rcx g), Num (rdx g), Num (rax g)] m1))
         else
           dump_and_stop K
             (dump_vm_exit_details K reason
                (panic_printk ''FATAL: Unhandled VM-Exit, reason %d, ''
                   [Num (ucast (ucast reason :: u16))] m)))"

section \<open>Cell management state\<close>

text \<open>
  The functions that create and destroy cells work on state shared by all CPUs: the
  cells themselves (\<^verbatim>\<open>linux_cell\<close> and the cell a function is called with may be
  the same object, so cells live in a store addressed by pointers), the VT-d globals of
  \<^verbatim>\<open>vtd.c\<close>, the context-entry tables (one page of 256 entries each, found through
  their address), the console, and the state of the collaborators.
\<close>

datatype cell_ptr = Linux_cell | Cell nat

record vtd_entry =
  lo_word :: u64
  hi_word :: u64

record 'x hv =
  cells :: "cell_ptr \<Rightarrow> cell"
  root_entry_table :: "u8 \<Rightarrow> vtd_entry"
  context_tables :: "u64 \<Rightarrow> u8 \<Rightarrow> vtd_entry"
  dmar_reg_base :: u64
  dmar_units :: u32
  dmar_pt_levels :: u32
  dmar_num_did :: u32
  console :: "event list"
  hv_x :: 'x

definition hv_emit :: "event \<Rightarrow> 'x hv \<Rightarrow> 'x hv" where
  "hv_emit e s = s\<lparr>console := console s @ [e]\<rparr>"

definition hv_printk :: "string \<Rightarrow> parg list \<Rightarrow> 'x hv \<Rightarrow> 'x hv" where
  "hv_printk fmt args s = hv_emit (Printk fmt args) s"

section \<open>Releasing a cell's VMX resources\<close>

text \<open>
  The loop of \<^verbatim>\<open>vmx_cell_exit\<close>: \<open>i\<close> bytes are done, \<open>n\<close> is what is left of
  \<^verbatim>\<open>pio_bitmap_size\<close>, \<open>b\<close> is the root cell's live bitmap, \<open>p\<close> and \<open>l\<close> the configured
  bitmaps of the exiting cell and of the root cell. An access beyond the end of an
  array is undefined in C: the result is \<open>None\<close>.
\<close>

fun vmx_cell_exit_loop :: "nat \<Rightarrow> nat \<Rightarrow> u8 list \<Rightarrow> u8 list \<Rightarrow> u8 list \<Rightarrow> u8 list option" where
  "vmx_cell_exit_loop i 0 b p l = Some b"
| "vmx_cell_exit_loop i (Suc n) b p l =
     (if i < length b \<and> i < length p \<and> i < length l
      then vmx_cell_exit_loop (Suc i) n (b[i := b ! i AND (p ! i OR l ! i)]) p l
      else None)"

definition vmx_cell_exit :: "hdr \<Rightarrow> 'x env \<Rightarrow> cell_ptr \<Rightarrow> 'x hv \<Rightarrow> 'x hv option" where
  "vmx_cell_exit K E c s =
     (let linux_pio_bitmap = pio_bitmap (config (cells s Linux_cell));
          cfg = config (cells s c);
          s1 = s\<lparr>hv_x := page_map_destroy E (ept (vmx (cells s c))) (XAPIC_BASE K) (PAGE_SIZE K)
                              (PAGE_DIR_LEVELS K) PAGE_MAP_NON_COHERENT (hv_x s)\<rparr>;
          sz = (if pio_bitmap_size (config (cells s1 Linux_cell)) < pio_bitmap_size cfg
                  then pio_bitmap_size (config (cells s1 Linux_cell))
                  else pio_bitmap_size cfg)
      in case vmx_cell_exit_loop 0 sz (io_bitmap (vmx (cells s1 Linux_cell)))
                (pio_bitmap cfg) linux_pio_bitmap of
           None \<Rightarrow> None
         | Some b \<Rightarrow>
             (let lc = cells s1 Linux_cell;
                  s2 = s1\<lparr>cells := (cells s1)(Linux_cell := lc\<lparr>vmx := (vmx lc)\<lparr>io_bitmap := b\<rparr>\<rparr>)\<rparr>
              in Some (s2\<lparr>hv_x := page_free E Mem_pool (ept (vmx (cells s2 c))) 1 (hv_x s2)\<rparr>)))"

text \<open>A port is accessible to a cell when its bit in the I/O bitmap is clear.\<close>

definition port_accessible :: "u8 list \<Rightarrow> nat \<Rightarrow> bool" where
  "port_accessible bm port = (\<not> bit (bm ! (port div 8)) (port mod 8))"

section \<open>The VT-d back-end\<close>

subsection \<open>Waiting for the hardware\<close>

text \<open>
  \<^verbatim>\<open>while (mmio_read(addr) & bits) cpu_relax();\<close> (\<open>until_set = False\<close>) and
  \<^verbatim>\<open>while (!(mmio_read(addr) & bits)) cpu_relax();\<close> (\<open>until_set = True\<close>). Nothing
  bounds these loops: \<open>None\<close> is the loop that never ends.
\<close>

partial_function (option) mmio_wait32 :: "'x env \<Rightarrow> u64 \<Rightarrow> u32 \<Rightarrow> bool \<Rightarrow> 'x \<Rightarrow> 'x option" where
  "mmio_wait32 E addr bits until_set x =
     (case mmio_read32 E addr x of
        (v, x') \<Rightarrow> if (v AND bits \<noteq> 0) = until_set then Some x'
                    else mmio_wait32 E addr bits until_set x')"

partial_function (option) mmio_wait64 :: "'x env \<Rightarrow> u64 \<Rightarrow> u64 \<Rightarrow> bool \<Rightarrow> 'x \<Rightarrow> 'x option" where
  "mmio_wait64 E addr bits until_set x =
     (case mmio_read64 E addr x of
        (v, x') \<Rightarrow> if (v AND bits \<noteq> 0) = until_set then Some x'
                    else mmio_wait64 E addr bits until_set x')"

subsection \<open>Cache flushes\<close>

definition vtd_iotlb_reg_base :: "hdr \<Rightarrow> 'x env \<Rightarrow> u64 \<Rightarrow> 'x \<Rightarrow> u64 \<times> 'x" where
  "vtd_iotlb_reg_base K E reg_base x =
     (case mmio_read64 E (reg_base + VTD_ECAP_REG K) x of
        (ecap, x') \<Rightarrow>
          (reg_base + drop_bit (VTD_ECAP_IRO_SHIFT K) (ecap AND VTD_ECAP_IRO_MASK K) * 16, x'))"

definition vtd_flush_dmar_caches :: "hdr \<Rightarrow> 'x env \<Rightarrow> u64 \<Rightarrow> u64 \<Rightarrow> u64 \<Rightarrow> 'x \<Rightarrow> 'x option" where
  "vtd_flush_dmar_caches K E reg_base ctx_scope iotlb_scope x =
     (case mmio_wait64 E (reg_base + VTD_CCMD_REG K) (VTD_CCMD_ICC K) False
             (mmio_write64 E (reg_base + VTD_CCMD_REG K) (ctx_scope OR VTD_CCMD_ICC K) x) of
        None \<Rightarrow> None
      | Some x1 \<Rightarrow>
          (case vtd_iotlb_reg_base K E reg_base x1 of
             (iotlb_reg_base, x2) \<Rightarrow>
               mmio_wait64 E (iotlb_reg_base + VTD_IOTLB_REG K) (VTD_IOTLB_IVT K) False
                 (mmio_write64 E (iotlb_reg_base + VTD_IOTLB_REG K)
                    (iotlb_scope OR VTD_IOTLB_DW K OR VTD_IOTLB_DR K OR VTD_IOTLB_IVT K) x2)))"

text \<open>The loop of \<^verbatim>\<open>vtd_flush_domain_caches\<close> over the units that are left.\<close>

fun vtd_flush_domain_caches_loop ::
  "hdr \<Rightarrow> 'x env \<Rightarrow> nat \<Rightarrow> u64 \<Rightarrow> u32 \<Rightarrow> u64 \<Rightarrow> 'x \<Rightarrow> 'x option" where
  "vtd_flush_domain_caches_loop K E 0 reg_base did iotlb_scope x = Some x"
| "vtd_flush_domain_caches_loop K E (Suc n) reg_base did iotlb_scope x =
     (case vtd_flush_dmar_caches K E reg_base (VTD_CCMD_CIRG_DOMAIN K OR ucast did) iotlb_scope x of
        None \<Rightarrow> None
      | Some x' \<Rightarrow> vtd_flush_domain_caches_loop K E n (reg_base + PAGE_SIZE K) did iotlb_scope x')"

definition vtd_flush_domain_caches :: "hdr \<Rightarrow> 'x env \<Rightarrow> u32 \<Rightarrow> 'x hv \<Rightarrow> 'x hv option" where
  "vtd_flush_domain_caches K E did s =
     (let iotlb_scope = VTD_IOTLB_IIRG_DOMAIN K OR push_bit (VTD_IOTLB_DID_SHIFT K) (ucast did)
      in case vtd_flush_domain_caches_loop K E (unat (dmar_units s)) (dmar_reg_base s) did
                iotlb_scope (hv_x s) of
           None \<Rightarrow> None
         | Some x \<Rightarrow> Some (s\<lparr>hv_x := x\<rparr>))"

subsection \<open>Discovery\<close>

text \<open>
  The \<^verbatim>\<open>do ... while\<close> loop of \<^verbatim>\<open>vtd_init\<close>, entered with the offset of the current
  remapping structure. Its result is the value \<^verbatim>\<open>vtd_init\<close> returns and the state.
\<close>

partial_function (option) vtd_init_loop ::
  "hdr \<Rightarrow> 'x env \<Rightarrow> acpi_dmar_table \<Rightarrow> nat \<Rightarrow> 'x hv \<Rightarrow> (int \<times> 'x hv) option" where
  "vtd_init_loop K E dmar offset s =
     (let drhd = drhd_at dmar offset in
      if unat (drhd_length drhd) < sizeof_acpi_dmar_drhd K \<or>
         unat (header_length dmar) < offset + unat (drhd_length drhd)
      then Some (- EIO K, s)
      else if drhd_segment drhd \<noteq> 0 then Some (- EIO K, s)
      else
        let s1 = hv_printk ''Found DMAR @%p'' [Num (register_base_addr drhd)] s in
        case page_alloc E Remap_pool 1 (hv_x s1) of (reg_base, x1) \<Rightarrow>
        let s2 = s1\<lparr>hv_x := x1\<rparr> in
        if reg_base = 0 then Some (- ENOMEM K, s2)
        else if dmar_units s2 \<noteq> 0 \<and>
                reg_base \<noteq> dmar_reg_base s2 + ucast (dmar_units s2) * PAGE_SIZE K
        then Some (- ENOMEM K, s2)
        else
          let s3 = (if dmar_units s2 = 0 then s2\<lparr>dmar_reg_base := reg_base\<rparr> else s2) in
          case page_map_create E (hv_page_table E) (register_base_addr drhd) (PAGE_SIZE K)
                 reg_base (PAGE_DEFAULT_FLAGS K OR PAGE_FLAG_UNCACHED K) (PAGE_DEFAULT_FLAGS K)
                 (PAGE_DIR_LEVELS K) PAGE_MAP_NON_COHERENT (hv_x s3) of (err, x2) \<Rightarrow>
          let s4 = s3\<lparr>hv_x := x2\<rparr> in
          if err \<noteq> 0 then Some (err, s4)
          else
            case mmio_read64 E (reg_base + VTD_CAP_REG K) (hv_x s4) of (caps, x3) \<Rightarrow>
            let s5 = s4\<lparr>hv_x := x3\<rparr> in
            if caps AND VTD_CAP_SAGAW39 K = 0 \<and> caps AND VTD_CAP_SAGAW48 K = 0
            then Some (- EIO K, s5)
            else
              let pt_levels = (if caps AND VTD_CAP_SAGAW39 K \<noteq> 0 then 3 else 4) in
              if 0 < dmar_pt_levels s5 \<and> dmar_pt_levels s5 \<noteq> pt_levels then Some (- EIO K, s5)
              else
                let s6 = s5\<lparr>dmar_pt_levels := pt_levels\<rparr> in
                if caps AND VTD_CAP_CM K \<noteq> 0 then Some (- EIO K, s6)
                else
                  case vtd_iotlb_reg_base K E reg_base (hv_x s6) of (iotlb, x4) \<Rightarrow>
                  let s7 = s6\<lparr>hv_x := x4\<rparr> in
                  if reg_base + PAGE_SIZE K \<le> iotlb then Some (- EIO K, s7)
                  else
                    case mmio_read32 E (reg_base + VTD_GSTS_REG K) (hv_x s7) of (gsts, x5) \<Rightarrow>
                    let s8 = s7\<lparr>hv_x := x5\<rparr> in
                    if gsts AND VTD_GSTS_TES K \<noteq> 0 then Some (- EBUSY K, s8)
                    else
                      let num_did = (push_bit (4 + unat (caps AND VTD_CAP_NUM_DID_MASK K) * 2) 1 :: u32);
                          s9 = (if num_did < dmar_num_did s8 then s8\<lparr>dmar_num_did := num_did\<rparr>
                                else s8);
                          s10 = s9\<lparr>dmar_units := dmar_units s9 + 1\<rparr>;
                          offset' = offset + unat (drhd_length drhd)
                      in if offset' < unat (header_length dmar) \<and>
                            drhd_type (drhd_at dmar offset') = ACPI_DMAR_DRHD K
                         then vtd_init_loop K E dmar offset' s10
                         else Some (0, s10))"

definition vtd_init :: "hdr \<Rightarrow> 'x env \<Rightarrow> 'x hv \<Rightarrow> (int \<times> 'x hv) option" where
  "vtd_init K E s =
     (case acpi_find_table_DMAR E of
        None \<Rightarrow> Some (0, hv_printk ''WARNING: No VT-d support found!'' [] s)
      | Some dmar \<Rightarrow>
          if unat (header_length dmar) < sizeof_acpi_dmar_table K + sizeof_acpi_dmar_drhd K
          then Some (- EIO K, s)
          else if drhd_type (drhd_at dmar (offsetof_remap_structs K)) \<noteq> ACPI_DMAR_DRHD K
          then Some (- EIO K, s)
          else vtd_init_loop K E dmar (offsetof_remap_structs K) s)"

subsection \<open>Assigning devices and memory to a cell\<close>

text \<open>
  The end of \<^verbatim>\<open>vtd_add_device_to_cell\<close>, once the context-entry table of the
  device's bus is known: the device's context entry is written and flushed.
\<close>

definition vtd_add_device_to_cell_entry ::
  "hdr \<Rightarrow> 'x env \<Rightarrow> cell_ptr \<Rightarrow> jailhouse_pci_device \<Rightarrow> u64 \<Rightarrow> 'x hv \<Rightarrow> bool \<times> 'x hv" where
  "vtd_add_device_to_cell_entry K E c device context_entry_table s =
     (let context_entry =
            \<lparr>lo_word = VTD_CTX_PRESENT K OR VTD_CTX_FPD K OR VTD_CTX_TTYPE_MLP_UNTRANS K OR
                       page_map_hvirt2phys E (page_table (vtd (cells s c))),
             hi_word = (if dmar_pt_levels s = 3 then VTD_CTX_AGAW_39 K else VTD_CTX_AGAW_48 K) OR
                       ucast (push_bit (VTD_CTX_DID_SHIFT K) (cell_id (cells s c)))\<rparr>;
          s1 = s\<lparr>context_tables := (context_tables s)
                    (context_entry_table :=
                       (context_tables s context_entry_table)(devfn device := context_entry))\<rparr>
      in (True, hv_emit (Flush_context_entry context_entry_table (devfn device) 16) s1))"

definition vtd_add_device_to_cell ::
  "hdr \<Rightarrow> 'x env \<Rightarrow> cell_ptr \<Rightarrow> jailhouse_pci_device \<Rightarrow> 'x hv \<Rightarrow> bool \<times> 'x hv" where
  "vtd_add_device_to_cell K E c device s =
     (let root_entry_lo = lo_word (root_entry_table s (bus device));
          s1 = hv_printk (''Adding PCI device %02x:%02x.%x to cell '' @ [CHR 0x22] @ ''%s'' @ [CHR 0x22])
                 [Num (ucast (bus device)), Num (ucast (drop_bit 3 (devfn device))),
                  Num (ucast (devfn device AND 7)), Str (cell_name (config (cells s c)))] s
      in if root_entry_lo AND VTD_ROOT_PRESENT K \<noteq> 0 then
           vtd_add_device_to_cell_entry K E c device
             (page_map_phys2hvirt E (root_entry_lo AND PAGE_MASK K)) s1
         else
           (case page_alloc E Mem_pool 1 (hv_x s1) of
              (context_entry_table, x) \<Rightarrow>
                let s2 = s1\<lparr>hv_x := x\<rparr> in
                if context_entry_table = 0 then (False, s2)
                else
                  let s3 = s2\<lparr>root_entry_table := (root_entry_table s2)
                              (bus device := (root_entry_table s2 (bus device))
                                 \<lparr>lo_word := VTD_ROOT_PRESENT K OR
                                              page_map_hvirt2phys E context_entry_table\<rparr>)\<rparr>
                  in vtd_add_device_to_cell_entry K E c device context_entry_table
                       (hv_emit (Flush_root_entry (bus device)) s3)))"

definition vtd_map_memory_region ::
  "hdr \<Rightarrow> 'x env \<Rightarrow> cell_ptr \<Rightarrow> jailhouse_memory \<Rightarrow> 'x hv \<Rightarrow> int \<times> 'x hv" where
  "vtd_map_memory_region K E c mem s =
     (if dmar_units s = 0 then (0, s)
      else if access_flags mem AND JAILHOUSE_MEM_DMA K = 0 then (0, s)
      else
        let page_flags =
              (if access_flags mem AND JAILHOUSE_MEM_READ K \<noteq> 0 then VTD_PAGE_READ K else 0) OR
              (if access_flags mem AND JAILHOUSE_MEM_WRITE K \<noteq> 0 then VTD_PAGE_WRITE K else 0)
        in case page_map_create E (page_table (vtd (cells s c))) (phys_start mem) (mem_size mem)
                  (virt_start mem) (ucast page_flags) (ucast (VTD_PAGE_READ K OR VTD_PAGE_WRITE K))
                  (dmar_pt_levels s) PAGE_MAP_COHERENT (hv_x s) of
             (err, x) \<Rightarrow> (err, s\<lparr>hv_x := x\<rparr>))"

definition vtd_unmap_memory_region ::
  "hdr \<Rightarrow> 'x env \<Rightarrow> cell_ptr \<Rightarrow> jailhouse_memory \<Rightarrow> 'x hv \<Rightarrow> 'x hv" where
  "vtd_unmap_memory_region K E c mem s =
     (if dmar_units s = 0 then s
      else if access_flags mem AND JAILHOUSE_MEM_DMA K \<noteq> 0
      then s\<lparr>hv_x := page_map_destroy E (page_table (vtd (cells s c))) (virt_start mem)
                         (mem_size mem) (dmar_pt_levels s) PAGE_MAP_COHERENT (hv_x s)\<rparr>
      else s)"

text \<open>The three loops of \<^verbatim>\<open>vtd_cell_init\<close>: over the memory regions (the result is
  the first error, else 0), over the PCI devices (the result is whether all were added),
  and over the remapping units that are left to switch on.\<close>

fun vtd_cell_init_map ::
  "hdr \<Rightarrow> 'x env \<Rightarrow> cell_ptr \<Rightarrow> jailhouse_memory list \<Rightarrow> 'x hv \<Rightarrow> int \<times> 'x hv" where
  "vtd_cell_init_map K E c [] s = (0, s)"
| "vtd_cell_init_map K E c (mem # mems) s =
     (case vtd_map_memory_region K E c mem s of
        (err, s') \<Rightarrow> if err \<noteq> 0 then (err, s') else vtd_cell_init_map K E c mems s')"

fun vtd_cell_init_add ::
  "hdr \<Rightarrow> 'x env \<Rightarrow> cell_ptr \<Rightarrow> jailhouse_pci_device list \<Rightarrow> 'x hv \<Rightarrow> bool \<times> 'x hv" where
  "vtd_cell_init_add K E c [] s = (True, s)"
| "vtd_cell_init_add K E c (dev # devs) s =
     (case vtd_add_device_to_cell K E c dev s of
        (ok, s') \<Rightarrow> if \<not> ok then (False, s') else vtd_cell_init_add K E c devs s')"

fun vtd_cell_init_enable :: "hdr \<Rightarrow> 'x env \<Rightarrow> nat \<Rightarrow> u64 \<Rightarrow> 'x \<Rightarrow> 'x option" where
  "vtd_cell_init_enable K E 0 reg_base x = Some x"
| "vtd_cell_init_enable K E (Suc n) reg_base x =
     (let x1 = mmio_write64 E (reg_base + VTD_RTADDR_REG K)
                 (page_map_hvirt2phys E (root_entry_table_hvirt E)) x;
          x2 = mmio_write32 E (reg_base + VTD_GCMD_REG K) (VTD_GCMD_SRTP K) x1
      in case mmio_wait32 E (reg_base + VTD_GSTS_REG K) (VTD_GSTS_SRTP K) True x2 of
           None \<Rightarrow> None
         | Some x3 \<Rightarrow>
             (case vtd_flush_dmar_caches K E reg_base (VTD_CCMD_CIRG_GLOBAL K)
                     (VTD_IOTLB_IIRG_GLOBAL K) x3 of
                None \<Rightarrow> None
              | Some x4 \<Rightarrow>
                  (case mmio_wait32 E (reg_base + VTD_GSTS_REG K) (VTD_GSTS_TES K) True
                          (mmio_write32 E (reg_base + VTD_GCMD_REG K) (VTD_GCMD_TE K) x4) of
                     None \<Rightarrow> None
                   | Some x5 \<Rightarrow> vtd_cell_init_enable K E n (reg_base + PAGE_SIZE K) x5)))"

definition vtd_cell_init :: "hdr \<Rightarrow> 'x env \<Rightarrow> cell_ptr \<Rightarrow> 'x hv \<Rightarrow> (int \<times> 'x hv) option" where
  "vtd_cell_init K E c s =
     (let cfg = config (cells s c);
          reg_base = dmar_reg_base s
      in if dmar_units s = 0 then Some (0, s)
         else if dmar_num_did s \<le> cell_id (cells s c) then Some (- ERANGE K, s)
         else
           case page_alloc E Mem_pool 1 (hv_x s) of (pt, x) \<Rightarrow>
           let s1 = s\<lparr>cells := (cells s)(c := (cells s c)\<lparr>vtd := \<lparr>page_table = pt\<rparr>\<rparr>), hv_x := x\<rparr> in
           if pt = 0 then Some (- ENOMEM K, s1)
           else
             case vtd_cell_init_map K E c (mem_regions cfg) s1 of (err, s2) \<Rightarrow>
             if err \<noteq> 0 then Some (err, s2)
             else
               case vtd_cell_init_add K E c (pci_devices cfg) s2 of (added, s3) \<Rightarrow>
               if \<not> added then Some (- ENOMEM K, s3)
               else
                 case mmio_read32 E (reg_base + VTD_GSTS_REG K) (hv_x s3) of (gsts, x') \<Rightarrow>
                 if gsts AND VTD_GSTS_TES K = 0 then
                   (case vtd_cell_init_enable K E (unat (dmar_units s3)) reg_base x' of
                      None \<Rightarrow> None
                    | Some x'' \<Rightarrow> Some (0, s3\<lparr>hv_x := x''\<rparr>))
                 else Some (0, s3\<lparr>hv_x := x'\<rparr>))"

subsection \<open>Taking devices and memory away\<close>

definition vtd_remove_device_from_cell ::
  "hdr \<Rightarrow> 'x env \<Rightarrow> cell_ptr \<Rightarrow> jailhouse_pci_device \<Rightarrow> 'x hv \<Rightarrow> 'x hv" where
  "vtd_remove_device_from_cell K E c device s =
     (let root_entry_lo = lo_word (root_entry_table s (bus device));
          context_entry_table = page_map_phys2hvirt E (root_entry_lo AND PAGE_MASK K);
          context_entry = context_tables s context_entry_table (devfn device)
      in if lo_word context_entry AND VTD_CTX_PRESENT K = 0 then s
         else
           let s1 = hv_printk (''Removing PCI device %02x:%02x.%x from cell '' @ [CHR 0x22] @ ''%s'' @ [CHR 0x22])
                      [Num (ucast (bus device)), Num (ucast (drop_bit 3 (devfn device))),
                       Num (ucast (devfn device AND 7)), Str (cell_name (config (cells s c)))] s;
               s2 = s1\<lparr>context_tables := (context_tables s1)
                         (context_entry_table :=
                            (context_tables s1 context_entry_table)
                              (devfn device :=
                                 context_entry\<lparr>lo_word := lo_word context_entry AND
                                                            NOT (VTD_CTX_PRESENT K)\<rparr>))\<rparr>;
               s3 = hv_emit (Flush_context_entry context_entry_table (devfn device) 8) s2
           in if list_ex (\<lambda>n. lo_word (context_tables s3 context_entry_table (of_nat n)) AND
                                VTD_CTX_PRESENT K \<noteq> 0) [0..<256]
              then s3
              else
                let s4 = s3\<lparr>root_entry_table := (root_entry_table s3)
                            (bus device := (root_entry_table s3 (bus device))
                               \<lparr>lo_word := lo_word (root_entry_table s3 (bus device)) AND
                                            NOT (VTD_ROOT_PRESENT K)\<rparr>)\<rparr>;
                    s5 = hv_emit (Flush_root_entry (bus device)) s4
                in s5\<lparr>hv_x := page_free E Mem_pool context_entry_table 1 (hv_x s5)\<rparr>)"

text \<open>The two loops of \<^verbatim>\<open>vtd_linux_cell_shrink\<close>.\<close>

fun vtd_linux_cell_shrink_unmap :: "hdr \<Rightarrow> 'x env \<Rightarrow> jailhouse_memory list \<Rightarrow> 'x hv \<Rightarrow> 'x hv" where
  "vtd_linux_cell_shrink_unmap K E [] s = s"
| "vtd_linux_cell_shrink_unmap K E (mem # mems) s =
     vtd_linux_cell_shrink_unmap K E mems
       (if access_flags mem AND JAILHOUSE_MEM_DMA K \<noteq> 0
        then s\<lparr>hv_x := page_map_destroy E (page_table (vtd (cells s Linux_cell))) (phys_start mem)
                           (mem_size mem) (dmar_pt_levels s) PAGE_MAP_COHERENT (hv_x s)\<rparr>
        else s)"

fun vtd_linux_cell_shrink_remove ::
  "hdr \<Rightarrow> 'x env \<Rightarrow> jailhouse_pci_device list \<Rightarrow> 'x hv \<Rightarrow> 'x hv" where
  "vtd_linux_cell_shrink_remove K E [] s = s"
| "vtd_linux_cell_shrink_remove K E (dev # devs) s =
     vtd_linux_cell_shrink_remove K E devs (vtd_remove_device_from_cell K E Linux_cell dev s)"

definition vtd_linux_cell_shrink :: "hdr \<Rightarrow> 'x env \<Rightarrow> jailhouse_cell_desc \<Rightarrow> 'x hv \<Rightarrow> 'x hv option" where
  "vtd_linux_cell_shrink K E cfg s =
     (let s1 = vtd_linux_cell_shrink_unmap K E (mem_regions cfg) s;
          s2 = vtd_linux_cell_shrink_remove K E (pci_devices cfg) s1
      in vtd_flush_domain_caches K E (cell_id (cells s2 Linux_cell)) s2)"

definition vtd_return_device_to_linux ::
  "hdr \<Rightarrow> 'x env \<Rightarrow> jailhouse_pci_device \<Rightarrow> 'x hv \<Rightarrow> bool \<times> 'x hv" where
  "vtd_return_device_to_linux K E dev s =
     (case find (\<lambda>linux_dev. pci_domain linux_dev = pci_domain dev \<and> bus linux_dev = bus dev \<and>
                              devfn linux_dev = devfn dev)
             (pci_devices (config (cells s Linux_cell))) of
        None \<Rightarrow> (True, s)
      | Some linux_dev \<Rightarrow> vtd_add_device_to_cell K E Linux_cell linux_dev s)"

text \<open>The loop of \<^verbatim>\<open>vtd_cell_exit\<close> over the cell's devices.\<close>

fun vtd_cell_exit_devices ::
  "hdr \<Rightarrow> 'x env \<Rightarrow> cell_ptr \<Rightarrow> jailhouse_pci_device list \<Rightarrow> 'x hv \<Rightarrow> 'x hv" where
  "vtd_cell_exit_devices K E c [] s = s"
| "vtd_cell_exit_devices K E c (dev # devs) s =
     (case vtd_return_device_to_linux K E dev (vtd_remove_device_from_cell K E c dev s) of
        (returned, s') \<Rightarrow>
          vtd_cell_exit_devices K E c devs
            (if \<not> returned
             then hv_printk ''WARNING: Failed to re-assign PCI device to Linux cell'' [] s'
             else s'))"

definition vtd_cell_exit :: "hdr \<Rightarrow> 'x env \<Rightarrow> cell_ptr \<Rightarrow> 'x hv \<Rightarrow> 'x hv option" where
  "vtd_cell_exit K E c s =
     (let s1 = vtd_cell_exit_devices K E c (pci_devices (config (cells s c))) s
      in case vtd_flush_domain_caches K E (cell_id (cells s1 c)) s1 of
           None \<Rightarrow> None
         | Some s2 \<Rightarrow>
             (case vtd_flush_domain_caches K E (cell_id (cells s2 Linux_cell)) s2 of
                None \<Rightarrow> None
              | Some s3 \<Rightarrow>
                  Some (s3\<lparr>hv_x := page_free E Mem_pool (page_table (vtd (cells s3 c))) 1 (hv_x s3)\<rparr>)))"

section \<open>Notions used to state the properties\<close>

subsection \<open>Hypercalls\<close>

text \<open>The condition under which \<^verbatim>\<open>vmx_handle_hypercall\<close> answers \<^verbatim>\<open>-EPERM\<close>: the
  guest is outside long mode and in virtual-8086 mode, or its code segment selector has a
  requested privilege level other than 0.\<close>

definition hypercall_denied :: "hdr \<Rightarrow> 'x machine \<Rightarrow> bool" where
  "hypercall_denied K m =
     ((vmcs_read64 m (Guest GUEST_IA32_EFER) AND EFER_LMA K = 0 \<and>
       vmcs_read64 m (Guest GUEST_RFLAGS) AND X86_RFLAGS_VM K \<noteq> 0) \<or>
      vmcs_read16 m (GUEST_SELECTOR CS) AND 3 \<noteq> 0)"

subsection \<open>APIC accesses\<close>

text \<open>The case labels of the \<^verbatim>\<open>switch\<close> in \<^verbatim>\<open>vmx_handle_exit\<close>, in the order of the
  source (C demands that they are pairwise distinct); the offset and the access type
  that \<^verbatim>\<open>vmx_handle_apic_access\<close> decodes from the exit qualification.\<close>

definition exit_reason_labels :: "hdr \<Rightarrow> u32 list" where
  "exit_reason_labels K =
     [EXIT_REASON_EXCEPTION_NMI K, EXIT_REASON_PREEMPTION_TIMER K, EXIT_REASON_CPUID K,
      EXIT_REASON_VMCALL K, EXIT_REASON_CR_ACCESS K, EXIT_REASON_MSR_READ K,
      EXIT_REASON_MSR_WRITE K, EXIT_REASON_APIC_ACCESS K, EXIT_REASON_XSETBV K]"

definition apic_access_offset :: "hdr \<Rightarrow> 'x machine \<Rightarrow> u32" where
  "apic_access_offset K m = ucast (vmcs_read64 m (Info EXIT_QUALIFICATION) AND APIC_ACCESS_OFFET_MASK K)"

definition apic_access_linear :: "hdr \<Rightarrow> 'x machine \<Rightarrow> bool" where
  "apic_access_linear K m =
     (vmcs_read64 m (Info EXIT_QUALIFICATION) AND APIC_ACCESS_TYPE_MASK K = APIC_ACCESS_TYPE_LINEAR_READ K \<or>
      vmcs_read64 m (Info EXIT_QUALIFICATION) AND APIC_ACCESS_TYPE_MASK K = APIC_ACCESS_TYPE_LINEAR_WRITE K)"

subsection \<open>Sequences of CPU bring-up and teardown calls\<close>











subsection \<open>Hardware capabilities\<close>

text \<open>
  The offset \<^verbatim>\<open>vmx_true_msr_offs\<close> in effect when \<^verbatim>\<open>vmx_cpu_init\<close> reads the
  capability registers, and its capability checks: a required capability is missing when
  the VMCS is larger than a page, its memory type is not write-back, or NMI exiting, the
  preemption timer, I/O bitmaps, MSR bitmaps, secondary controls, APIC access
  virtualization, EPT (with its mandatory features and an INVEPT type), unrestricted guest
  mode or the HLT activity state is not supported. The feature control register locks VMX
  out when it is locked without VMXON outside SMX being enabled.
\<close>

definition vmx_true_msr_offs_in_use :: "hdr \<Rightarrow> 'x machine \<Rightarrow> u32" where
  "vmx_true_msr_offs_in_use K m =
     (if read_msr m (MSR_IA32_VMX_BASIC K) AND push_bit 55 1 \<noteq> 0
      then MSR_IA32_VMX_TRUE_PINBASED_CTLS K - MSR_IA32_VMX_PINBASED_CTLS K
      else vmx_true_msr_offs m)"

definition vmx_capability_missing :: "hdr \<Rightarrow> 'x machine \<Rightarrow> bool" where
  "vmx_capability_missing K m =
     (let vmx_basic = read_msr m (MSR_IA32_VMX_BASIC K);
          offs = vmx_true_msr_offs_in_use K m;
          vmx_pin_ctrl = drop_bit 32 (read_msr m (MSR_IA32_VMX_PINBASED_CTLS K + offs));
          vmx_proc_ctrl = drop_bit 32 (read_msr m (MSR_IA32_VMX_PROCBASED_CTLS K + offs));
          vmx_proc_ctrl2 = drop_bit 32 (read_msr m (MSR_IA32_VMX_PROCBASED_CTLS2 K));
          ept_cap = read_msr m (MSR_IA32_VMX_EPT_VPID_CAP K)
      in PAGE_SIZE K < (drop_bit 32 vmx_basic AND 0x1fff) \<or>
         drop_bit 50 vmx_basic AND 0xf \<noteq> EPT_TYPE_WRITEBACK K \<or>
         vmx_pin_ctrl AND PIN_BASED_NMI_EXITING K = 0 \<or>
         vmx_pin_ctrl AND PIN_BASED_VMX_PREEMPTION_TIMER K = 0 \<or>
         vmx_proc_ctrl AND CPU_BASED_USE_IO_BITMAPS K = 0 \<or>
         vmx_proc_ctrl AND CPU_BASED_USE_MSR_BITMAPS K = 0 \<or>
         vmx_proc_ctrl AND CPU_BASED_ACTIVATE_SECONDARY_CONTROLS K = 0 \<or>
         vmx_proc_ctrl2 AND SECONDARY_EXEC_VIRTUALIZE_APIC_ACCESSES K = 0 \<or>
         vmx_proc_ctrl2 AND SECONDARY_EXEC_ENABLE_EPT K = 0 \<or>
         ept_cap AND EPT_MANDATORY_FEATURES K \<noteq> EPT_MANDATORY_FEATURES K \<or>
         ept_cap AND (EPT_INVEPT_SINGLE K OR EPT_INVEPT_GLOBAL K) = 0 \<or>
         vmx_proc_ctrl2 AND SECONDARY_EXEC_UNRESTRICTED_GUEST K = 0 \<or>
         read_msr m (MSR_IA32_VMX_MISC K) AND VMX_MISC_ACTIVITY_HLT K = 0)"

definition feature_control_locked_out :: "hdr \<Rightarrow> 'x machine \<Rightarrow> bool" where
  "feature_control_locked_out K m =
     (let feature_ctrl = read_msr m (MSR_IA32_FEATURE_CONTROL K);
          mask_bits = FEATURE_CONTROL_LOCKED K OR FEATURE_CONTROL_VMXON_ENABLED_OUTSIDE_SMX K
      in feature_ctrl AND mask_bits \<noteq> mask_bits \<and> feature_ctrl AND FEATURE_CONTROL_LOCKED K \<noteq> 0)"

section \<open>A concrete machine for the closed examples\<close>

text \<open>
  The closed examples below need values for the header constants. They are the
  architectural ones (Intel SDM for VMX and x86, the VT-d specification, ACPI) and the
  errno and hypercall numbers of Linux and Jailhouse. The environment answers every
  request in the simplest way; the machine and the cell state are all zero, with VMX off.
\<close>

definition x86_hdr :: hdr where
  "x86_hdr =
     \<lparr>EPERM = 1, EIO = 5, ENOMEM = 12, EBUSY = 16, ENODEV = 19, ERANGE = 34, ENOSYS = 38,
      JAILHOUSE_HC_DISABLE = 0, JAILHOUSE_HC_CELL_CREATE = 1, JAILHOUSE_HC_CELL_DESTROY = 2,
      JAILHOUSE_MEM_READ = 0x0001, JAILHOUSE_MEM_WRITE = 0x0002,
      JAILHOUSE_MEM_EXECUTE = 0x0004, JAILHOUSE_MEM_DMA = 0x0008,
      X86_FEATURE_VMX = 0x20,
      X86_CR0_PE = 0x00000001, X86_CR0_ET = 0x00000010, X86_CR0_NW = 0x20000000,
      X86_CR0_CD = 0x40000000, X86_CR0_PG = 0x80000000,
      X86_CR4_VMXE = 0x00002000, X86_RFLAGS_VM = 0x20000, X86_XCR0_FP = 0x00000001,
      EFER_LME = 0x00000100, EFER_LMA = 0x00000400,
      X86_INST_LEN_CPUID = 2, X86_INST_LEN_RDMSR = 2, X86_INST_LEN_WRMSR = 2,
      X86_INST_LEN_VMCALL = 3, X86_INST_LEN_MOV_TO_CR = 3, X86_INST_LEN_XSETBV = 3,
      GDT_DESC_CODE = 1, GDT_DESC_TSS = 2, NUM_ENTRY_REGS = 6,
      PAGE_SIZE = 4096, PAGE_MASK = NOT 0xfff, PAGE_ADDR_MASK = 0x000ffffffffff000,
      XAPIC_BASE = 0xfee00000, APIC_BSP_PSEUDO_SIPI = 0x100,
      MSR_IA32_FEATURE_CONTROL = 0x0000003a,
      MSR_IA32_SYSENTER_CS = 0x00000174, MSR_IA32_SYSENTER_ESP = 0x00000175,
      MSR_IA32_SYSENTER_EIP = 0x00000176,
      MSR_IA32_VMX_BASIC = 0x00000480, MSR_IA32_VMX_PINBASED_CTLS = 0x00000481,
      MSR_IA32_VMX_PROCBASED_CTLS = 0x00000482, MSR_IA32_VMX_EXIT_CTLS = 0x00000483,
      MSR_IA32_VMX_ENTRY_CTLS = 0x00000484, MSR_IA32_VMX_MISC = 0x00000485,
      MSR_IA32_VMX_CR0_FIXED0 = 0x00000486, MSR_IA32_VMX_CR0_FIXED1 = 0x00000487,
      MSR_IA32_VMX_CR4_FIXED0 = 0x00000488, MSR_IA32_VMX_CR4_FIXED1 = 0x00000489,
      MSR_IA32_VMX_PROCBASED_CTLS2 = 0x0000048b, MSR_IA32_VMX_EPT_VPID_CAP = 0x0000048c,
      MSR_IA32_VMX_TRUE_PINBASED_CTLS = 0x0000048d,
      MSR_X2APIC_BASE = 0x800, MSR_X2APIC_ICR = 0x830, MSR_X2APIC_END = 0x83f,
      FEATURE_CONTROL_LOCKED = 1, FEATURE_CONTROL_VMXON_ENABLED_OUTSIDE_SMX = 4,
      EXIT_REASONS_FAILED_VMENTRY = 0x80000000,
      EXIT_REASON_EXCEPTION_NMI = 0, EXIT_REASON_PREEMPTION_TIMER = 52,
      EXIT_REASON_CPUID = 10, EXIT_REASON_VMCALL = 18, EXIT_REASON_CR_ACCESS = 28,
      EXIT_REASON_MSR_READ = 31, EXIT_REASON_MSR_WRITE = 32, EXIT_REASON_APIC_ACCESS = 44,
      EXIT_REASON_XSETBV = 55, EXIT_REASON_EPT_VIOLATION = 48, EXIT_REASON_EPT_MISCONFIG = 49,
      APIC_ACCESS_OFFET_MASK = 0x00000fff, APIC_ACCESS_TYPE_MASK = 0x0000f000,
      APIC_ACCESS_TYPE_LINEAR_READ = 0x00000000, APIC_ACCESS_TYPE_LINEAR_WRITE = 0x00001000,
      PIN_BASED_NMI_EXITING = 0x00000008, PIN_BASED_VMX_PREEMPTION_TIMER = 0x00000040,
      CPU_BASED_USE_IO_BITMAPS = 0x02000000, CPU_BASED_USE_MSR_BITMAPS = 0x10000000,
      CPU_BASED_ACTIVATE_SECONDARY_CONTROLS = 0x80000000,
      SECONDARY_EXEC_VIRTUALIZE_APIC_ACCESSES = 0x00000001,
      SECONDARY_EXEC_ENABLE_EPT = 0x00000002, SECONDARY_EXEC_UNRESTRICTED_GUEST = 0x00000080,
      EPT_TYPE_WRITEBACK = 6, EPT_PAGE_WALK_LEN = 0x18, EPT_MANDATORY_FEATURES = 0x00104040,
      EPT_INVEPT_SINGLE = 0x02000000, EPT_INVEPT_GLOBAL = 0x04000000,
      VMX_MISC_ACTIVITY_HLT = 0x00000040,
      VM_EXIT_HOST_ADDR_SPACE_SIZE = 0x00000200, VM_EXIT_SAVE_IA32_EFER = 0x00100000,
      VM_EXIT_LOAD_IA32_EFER = 0x00200000,
      VM_ENTRY_IA32E_MODE = 0x00000200, VM_ENTRY_LOAD_IA32_EFER = 0x00008000,
      GUEST_ACTIVITY_ACTIVE = 0, GUEST_ACTIVITY_HLT = 1,
      VTD_CAP_SAGAW39 = 0x200, VTD_CAP_SAGAW48 = 0x400, VTD_CAP_CM = 0x80,
      VTD_CAP_NUM_DID_MASK = 7, VTD_CAP_REG = 0x08, VTD_ECAP_REG = 0x10,
      VTD_ECAP_IRO_MASK = 0x3ff00, VTD_ECAP_IRO_SHIFT = 8,
      VTD_GCMD_REG = 0x18, VTD_GCMD_SRTP = 0x40000000, VTD_GCMD_TE = 0x80000000,
      VTD_GSTS_REG = 0x1c, VTD_GSTS_SRTP = 0x40000000, VTD_GSTS_TES = 0x80000000,
      VTD_RTADDR_REG = 0x20, VTD_CCMD_REG = 0x28,
      VTD_CCMD_ICC = 0x8000000000000000, VTD_CCMD_CIRG_GLOBAL = 0x2000000000000000,
      VTD_CCMD_CIRG_DOMAIN = 0x4000000000000000,
      VTD_IOTLB_REG = 0x8, VTD_IOTLB_DID_SHIFT = 32,
      VTD_IOTLB_DW = 0x1000000000000, VTD_IOTLB_DR = 0x2000000000000,
      VTD_IOTLB_IVT = 0x8000000000000000, VTD_IOTLB_IIRG_GLOBAL = 0x1000000000000000,
      VTD_IOTLB_IIRG_DOMAIN = 0x2000000000000000,
      VTD_ROOT_PRESENT = 1, VTD_CTX_PRESENT = 1, VTD_CTX_FPD = 2,
      VTD_CTX_TTYPE_MLP_UNTRANS = 0, VTD_CTX_AGAW_39 = 1, VTD_CTX_AGAW_48 = 2,
      VTD_CTX_DID_SHIFT = 8, VTD_PAGE_READ = 1, VTD_PAGE_WRITE = 2,
      ACPI_DMAR_DRHD = 0, sizeof_acpi_dmar_table = 48, sizeof_acpi_dmar_drhd = 16,
      offsetof_remap_structs = 48, PAGE_DIR_LEVELS = 4,
      PAGE_DEFAULT_FLAGS = 3, PAGE_FLAG_UNCACHED = 0x10\<rparr>"

definition example_env :: "unit env" where
  "example_env =
     \<lparr>cpuid = (\<lambda>op sub. (0, 0, 0x20, 0)),
      vmxon_ok = True, vmclear_ok = True, vmptrld_ok = True, vmwrite_ok = (\<lambda>field. True),
      page_map_hvirt2phys = (\<lambda>a. a), vm_exit_hvirt = 0, msr_bitmap_hvirt = 0,
      apic_access_page_hvirt = 0,
      int_nmi = (\<lambda>m. m), apic_handle_events = (\<lambda>m. (- 1, m)),
      apic_mmio_access = (\<lambda>rip pt reg is_write m. (0, m)),
      x2apic_handle_read = (\<lambda>m. m), x2apic_handle_write = (\<lambda>m. m),
      apic_handle_icr_write = (\<lambda>lo hi m. m),
      shutdown = (\<lambda>m. (0, m)), cell_create = (\<lambda>a m. (0, m)), cell_destroy = (\<lambda>a m. (0, m)),
      arch_cpu_restore = (\<lambda>m. m),
      acpi_find_table_DMAR = None, hv_page_table = 0, root_entry_table_hvirt = 0,
      page_map_phys2hvirt = (\<lambda>a. a),
      page_alloc = (\<lambda>p n x. (0x1000, x)), page_free = (\<lambda>p a n x. x),
      page_map_create = (\<lambda>t phys sz virt pf tf lv co x. (0, x)),
      page_map_destroy = (\<lambda>t virt sz lv co x. x),
      mmio_read32 = (\<lambda>a x. (0, x)), mmio_read64 = (\<lambda>a x. (0, x)),
      mmio_write32 = (\<lambda>a v x. x), mmio_write64 = (\<lambda>a v x. x)\<rparr>"

definition example_cell :: cell where
  "example_cell =
     \<lparr>cell_id = 0,
      config = \<lparr>cell_name = ''cell'', mem_regions = [], pci_devices = [], pio_bitmap = []\<rparr>,
      vmx = \<lparr>ept = 0, io_bitmap = [], io_bitmap_hvirt = 0\<rparr>,
      vtd = \<lparr>page_table = 0\<rparr>\<rparr>"

definition example_segment :: segment where
  "example_segment = \<lparr>selector = 0, base = 0, limit = 0, access_rights = 0\<rparr>"

definition example_cpu :: per_cpu where
  "example_cpu =
     \<lparr>cpu_id = 0, vmx_state = VMXOFF, cell = example_cell, stack_top = 0,
      linux_sp = 0, linux_ip = 0, linux_cr3 = 0,
      linux_gdtr = \<lparr>dtr_limit = 0, dtr_base = 0\<rparr>, linux_idtr = \<lparr>dtr_limit = 0, dtr_base = 0\<rparr>,
      linux_cs = example_segment, linux_ds = example_segment, linux_es = example_segment,
      linux_fs = example_segment, linux_gs = example_segment, linux_tss = example_segment,
      linux_efer = 0, linux_sysenter_cs = 0, linux_sysenter_eip = 0, linux_sysenter_esp = 0,
      vmxon_region = \<lparr>revision_id = 0, shadow_indicator = False\<rparr>,
      vmcs_region = \<lparr>revision_id = 0, shadow_indicator = False\<rparr>\<rparr>"

definition example_machine :: "unit machine" where
  "example_machine =
     \<lparr>vmcs = (\<lambda>field. 0), cr0 = 0, cr3 = 0, cr4 = 0, gdtr_base = 0, idtr_base = 0,
      msr = (\<lambda>index. 0), vmx_true_msr_offs = 0, guest_regs = zero_registers,
      cpu_data = example_cpu, trace = [], ext = ()\<rparr>"

definition example_hv :: "unit hv" where
  "example_hv =
     \<lparr>cells = (\<lambda>c. example_cell),
      root_entry_table = (\<lambda>bus. \<lparr>lo_word = 0, hi_word = 0\<rparr>),
      context_tables = (\<lambda>table index. \<lparr>lo_word = 0, hi_word = 0\<rparr>),
      dmar_reg_base = 0, dmar_units = 0, dmar_pt_levels = 0, dmar_num_did = - 1,
      console = [], hv_x = ()\<rparr>"

text \<open>A root cell all of whose ports are closed at the moment, though its
  configuration grants it ports 0 and 1, and a cell that was given port 0.\<close>

definition example_cells_hv :: "unit hv" where
  "example_cells_hv =
     example_hv
       \<lparr>cells := (\<lambda>c. example_cell)
          (Linux_cell := example_cell
             \<lparr>config := (config example_cell)\<lparr>pio_bitmap := [0xfc, 0xff]\<rparr>,
              vmx := (vmx example_cell)\<lparr>io_bitmap := [0xff, 0xff]\<rparr>\<rparr>,
           Cell 1 := example_cell
             \<lparr>cell_id := 1, config := (config example_cell)\<lparr>pio_bitmap := [0xfe]\<rparr>\<rparr>)\<rparr>"

definition example_device :: jailhouse_pci_device where
  "example_device = \<lparr>pci_domain = 0, bus = 0, devfn = 0x10\<rparr>"

text \<open>A DMAR table whose first remapping structure is not a DRHD (type 1 is an RMRR).\<close>

definition example_dmar_no_drhd :: acpi_dmar_table where
  "example_dmar_no_drhd =
     \<lparr>header_length = 72,
      drhd_at = (\<lambda>offset. \<lparr>drhd_type = 1, drhd_length = 24, drhd_segment = 0,
                              register_base_addr = 0\<rparr>)\<rparr>"

text \<open>Model-specific registers of a CPU with every capability \<^verbatim>\<open>vmx_cpu_init\<close>
  asks for: VMCS of 4096 bytes and write-back type (0x480), the required pin-based
  (0x481), primary (0x482) and secondary (0x48b) controls, EPT with both INVEPT types
  (0x48c), the HLT activity state (0x485), feature control locked with VMXON enabled
  (0x3a).\<close>

definition capable_msr :: "u32 \<Rightarrow> u64" where
  "capable_msr =
     (\<lambda>index. 0)
       (0x480 := 0x0018100000000001, 0x481 := 0x0000004800000000,
        0x482 := 0x9200000000000000, 0x48b := 0x0000008300000000,
        0x48c := 0x0000000006104040, 0x485 := 0x0000000000000040,
        0x3a := 5)"


section \<open>Properties of the VM-exit dispatcher\<close>

lemma vmx_skip_emulated_instruction_eq:
  "vmx_skip_emulated_instruction E inst_len m =
     (if vmwrite_ok E (Guest GUEST_RIP)
      then m\<lparr>vmcs := (vmcs m)(Guest GUEST_RIP := vmcs m (Guest GUEST_RIP) + ucast inst_len)\<rparr>
      else printk ''FATAL: vmwrite %08lx failed, error %d, caller %p''
             [Fld (Guest GUEST_RIP), Num (ucast (vmcs_read32 m (Info VM_INSTRUCTION_ERROR)))] m)"
  by (simp add: vmx_skip_emulated_instruction_def vmcs_write64_def vmcs_read64_def)

lemma hypercall_denied_skip:
  "hypercall_denied K (vmx_skip_emulated_instruction E n m) = hypercall_denied K m"
  by (simp add: hypercall_denied_def vmx_skip_emulated_instruction_eq vmcs_read64_def
      vmcs_read16_def printk_def emit_def)

text \<open>
  Claim C1. Whenever the exit reason read from the VMCS has the failed-VM-entry bit set,
  whatever its other bits are, \<^verbatim>\<open>vmx_handle_exit\<close> prints the fatal message with the
  low 16 bits of the reason, dumps the guest register and segment state, and stops the
  CPU. The dump is six lines, all read from the state the dispatcher was entered with:
  RIP, RSP and RFLAGS; RAX, RBX and RCX; RDX, RSI and RDI; the selector, base and access
  rights of CS with the long-mode bit of the VM-entry controls; CR0, CR3 and CR4; EFER.
  The resulting state is the entry state with exactly these eight events appended to the
  trace. It does not depend on the environment, so no handler of an exit reason (each of
  which calls into the environment or writes the VMCS or the guest registers) has run.
\<close>

theorem vmx_handle_exit_failed_vmentry:
  assumes "vmcs_read32 m (Info VM_EXIT_REASON) AND EXIT_REASONS_FAILED_VMENTRY K \<noteq> 0"
  shows "vmx_handle_exit K E m =
           (Stopped,
            m\<lparr>trace := trace m @
              [Panic_printk ''FATAL: VM-Entry failure, reason %d''
                 [Num (ucast (ucast (vmcs_read32 m (Info VM_EXIT_REASON)) :: u16))],
               Panic_printk ''RIP: %p RSP: %p FLAGS: %x''
                 [Num (vmcs_read64 m (Guest GUEST_RIP)), Num (vmcs_read64 m (Guest GUEST_RSP)),
                  Num (vmcs_read64 m (Guest GUEST_RFLAGS))],
               Panic_printk ''RAX: %p RBX: %p RCX: %p''
                 [Num (rax (guest_regs m)), Num (rbx (guest_regs m)), Num (rcx (guest_regs m))],
               Panic_printk ''RDX: %p RSI: %p RDI: %p''
                 [Num (rdx (guest_regs m)), Num (rsi (guest_regs m)), Num (rdi (guest_regs m))],
               Panic_printk ''CS: %x BASE: %p AR-BYTES: %x EFER.LMA %d''
                 [Num (vmcs_read64 m (GUEST_SELECTOR CS)), Num (vmcs_read64 m (GUEST_BASE CS)),
                  Num (ucast (vmcs_read32 m (GUEST_AR_BYTES CS))),
                  Num (if vmcs_read32 m (Ctrl VM_ENTRY_CONTROLS) AND
                          ucast (VM_ENTRY_IA32E_MODE K) \<noteq> 0 then 1 else 0)],
               Panic_printk ''CR0: %p CR3: %p CR4: %p''
                 [Num (vmcs_read64 m (Guest GUEST_CR0)), Num (vmcs_read64 m (Guest GUEST_CR3)),
                  Num (vmcs_read64 m (Guest GUEST_CR4))],
               Panic_printk ''EFER: %p'' [Num (vmcs_read64 m (Guest GUEST_IA32_EFER))],
               Panic_stop]\<rparr>)"
  using assms
  by (simp add: vmx_handle_exit_def dump_and_stop_def panic_stop_def Let_def
      dump_guest_regs_def panic_printk_def emit_def vmcs_read32_def vmcs_read64_def)

theorem vmx_handle_exit_failed_vmentry_witness:
  "vmcs_read32 (example_machine
        \<lparr>vmcs := (\<lambda>field. 0)(Info VM_EXIT_REASON := 0x80000021, Guest GUEST_RIP := 0x1000,
                                GUEST_SELECTOR CS := 0x10, Guest GUEST_CR0 := 0x80000031,
                                Ctrl VM_ENTRY_CONTROLS := 0x200),
          guest_regs := zero_registers\<lparr>rax := 7, rdi := 9\<rparr>\<rparr>)
       (Info VM_EXIT_REASON) AND EXIT_REASONS_FAILED_VMENTRY x86_hdr \<noteq> 0 \<and>
   fst (vmx_handle_exit x86_hdr example_env
          (example_machine
             \<lparr>vmcs := (\<lambda>field. 0)(Info VM_EXIT_REASON := 0x80000021, Guest GUEST_RIP := 0x1000,
                                     GUEST_SELECTOR CS := 0x10, Guest GUEST_CR0 := 0x80000031,
                                     Ctrl VM_ENTRY_CONTROLS := 0x200),
               guest_regs := zero_registers\<lparr>rax := 7, rdi := 9\<rparr>\<rparr>)) = Stopped \<and>
   trace (snd (vmx_handle_exit x86_hdr example_env
          (example_machine
             \<lparr>vmcs := (\<lambda>field. 0)(Info VM_EXIT_REASON := 0x80000021, Guest GUEST_RIP := 0x1000,
                                     GUEST_SELECTOR CS := 0x10, Guest GUEST_CR0 := 0x80000031,
                                     Ctrl VM_ENTRY_CONTROLS := 0x200),
               guest_regs := zero_registers\<lparr>rax := 7, rdi := 9\<rparr>\<rparr>))) =
     [Panic_printk ''FATAL: VM-Entry failure, reason %d'' [Num 0x21],
      Panic_printk ''RIP: %p RSP: %p FLAGS: %x'' [Num 0x1000, Num 0, Num 0],
      Panic_printk ''RAX: %p RBX: %p RCX: %p'' [Num 7, Num 0, Num 0],
      Panic_printk ''RDX: %p RSI: %p RDI: %p'' [Num 0, Num 0, Num 9],
      Panic_printk ''CS: %x BASE: %p AR-BYTES: %x EFER.LMA %d'' [Num 0x10, Num 0, Num 0, Num 1],
      Panic_printk ''CR0: %p CR3: %p CR4: %p'' [Num 0x80000031, Num 0, Num 0],
      Panic_printk ''EFER: %p'' [Num 0],
      Panic_stop]"
proof -
  let ?m = "example_machine
        \<lparr>vmcs := (\<lambda>field. 0)(Info VM_EXIT_REASON := 0x80000021, Guest GUEST_RIP := 0x1000,
                                GUEST_SELECTOR CS := 0x10, Guest GUEST_CR0 := 0x80000031,
                                Ctrl VM_ENTRY_CONTROLS := 0x200),
          guest_regs := zero_registers\<lparr>rax := 7, rdi := 9\<rparr>\<rparr>"
  have h: "vmcs_read32 ?m (Info VM_EXIT_REASON) AND EXIT_REASONS_FAILED_VMENTRY x86_hdr \<noteq> 0"
    by (simp add: vmcs_read32_def vmcs_read64_def x86_hdr_def example_machine_def)
  show ?thesis
    using h vmx_handle_exit_failed_vmentry [OF h, of example_env]
    by (simp add: vmcs_read32_def vmcs_read64_def x86_hdr_def example_machine_def
        zero_registers_def)
qed

text \<open>
  Claim C3, amended. The claim as stated fails: the privilege check comes before the
  dispatch, so a denied guest gets \<^verbatim>\<open>-EPERM\<close> whatever the function code is, and the
  guest RIP is advanced in every case. What holds: for a function code that is none of
  DISABLE, CELL_CREATE and CELL_DESTROY, from a guest that passes the privilege check,
  the handler returns with \<^verbatim>\<open>-ENOSYS\<close> in \<open>rax\<close>; besides \<open>rax\<close> it changes the guest RIP
  field of the VMCS (advanced by the length of VMCALL, when the VMWRITE succeeds) and the
  trace (console messages only), and nothing else: the other guest registers, the other
  VMCS fields, the per-CPU data, the control registers and MSRs, and the state of the rest
  of the hypervisor (cells, EPT, IOMMU) are as before.
\<close>

theorem vmx_handle_hypercall_unknown_code:
  assumes "rax (guest_regs m) \<noteq> JAILHOUSE_HC_DISABLE K"
    and "rax (guest_regs m) \<noteq> JAILHOUSE_HC_CELL_CREATE K"
    and "rax (guest_regs m) \<noteq> JAILHOUSE_HC_CELL_DESTROY K"
    and "\<not> hypercall_denied K m"
  shows "\<exists>m' msgs.
           vmx_handle_hypercall K E m = (Returned, m') \<and>
           guest_regs m' = (guest_regs m)\<lparr>rax := word_of_int (- ENOSYS K)\<rparr> \<and>
           vmcs m' = (if vmwrite_ok E (Guest GUEST_RIP)
                      then (vmcs m)(Guest GUEST_RIP :=
                             vmcs m (Guest GUEST_RIP) + ucast (X86_INST_LEN_VMCALL K))
                      else vmcs m) \<and>
           trace m' = trace m @ msgs \<and>
           list_all (\<lambda>e. case e of Printk fmt args \<Rightarrow> True | _ \<Rightarrow> False) msgs \<and>
           m'\<lparr>guest_regs := guest_regs m, vmcs := vmcs m, trace := trace m\<rparr> = m"
proof -
  have d: "\<not> hypercall_denied K (vmx_skip_emulated_instruction E (X86_INST_LEN_VMCALL K) m)"
    using assms(4) by (simp add: hypercall_denied_skip)
  have g: "guest_regs (vmx_skip_emulated_instruction E (X86_INST_LEN_VMCALL K) m) = guest_regs m"
    by (simp add: vmx_skip_emulated_instruction_eq printk_def emit_def)
  show ?thesis
    using assms(1-3) d g unfolding vmx_handle_hypercall_def Let_def hypercall_denied_def
    by (cases "vmwrite_ok E (Guest GUEST_RIP)")
       (auto simp add: vmx_skip_emulated_instruction_eq set_rax_def printk_def emit_def
          vmcs_read64_def vmcs_read16_def)
qed

theorem vmx_handle_hypercall_unknown_code_witness:
  "rax (guest_regs (example_machine\<lparr>guest_regs := zero_registers\<lparr>rax := 99\<rparr>\<rparr>))
     \<noteq> JAILHOUSE_HC_CELL_DESTROY x86_hdr \<and>
   \<not> hypercall_denied x86_hdr (example_machine\<lparr>guest_regs := zero_registers\<lparr>rax := 99\<rparr>\<rparr>) \<and>
   rax (guest_regs (snd (vmx_handle_hypercall x86_hdr example_env
          (example_machine\<lparr>guest_regs := zero_registers\<lparr>rax := 99\<rparr>\<rparr>)))) = - 38"
proof -
  let ?m = "example_machine\<lparr>guest_regs := zero_registers\<lparr>rax := 99\<rparr>\<rparr>"
  have 1: "rax (guest_regs ?m) \<noteq> JAILHOUSE_HC_DISABLE x86_hdr"
    and 2: "rax (guest_regs ?m) \<noteq> JAILHOUSE_HC_CELL_CREATE x86_hdr"
    and 3: "rax (guest_regs ?m) \<noteq> JAILHOUSE_HC_CELL_DESTROY x86_hdr"
    by (simp_all add: x86_hdr_def)
  have 4: "\<not> hypercall_denied x86_hdr ?m"
    by (simp add: hypercall_denied_def example_machine_def vmcs_read64_def vmcs_read16_def)
  from vmx_handle_hypercall_unknown_code [OF 1 2 3 4, of example_env]
  have "rax (guest_regs (snd (vmx_handle_hypercall x86_hdr example_env ?m))) =
          word_of_int (- ENOSYS x86_hdr)"
    by auto
  then show ?thesis using 3 4 by (simp add: x86_hdr_def)
qed

theorem vmx_handle_hypercall_unknown_code_counterexample:
  "rax (guest_regs
          (example_machine\<lparr>guest_regs := zero_registers\<lparr>rax := 99\<rparr>,
             vmcs := (\<lambda>field. 0)(GUEST_SELECTOR CS := 0x33, Guest GUEST_RIP := 0x1000)\<rparr>))
     \<notin> {JAILHOUSE_HC_DISABLE x86_hdr, JAILHOUSE_HC_CELL_CREATE x86_hdr,
         JAILHOUSE_HC_CELL_DESTROY x86_hdr} \<and>
   vmx_handle_hypercall x86_hdr example_env
     (example_machine\<lparr>guest_regs := zero_registers\<lparr>rax := 99\<rparr>,
                       vmcs := (\<lambda>field. 0)(GUEST_SELECTOR CS := 0x33, Guest GUEST_RIP := 0x1000)\<rparr>) =
   (Returned,
    example_machine\<lparr>guest_regs := zero_registers\<lparr>rax := word_of_int (- EPERM x86_hdr)\<rparr>,
                      vmcs := (\<lambda>field. 0)(GUEST_SELECTOR CS := 0x33, Guest GUEST_RIP := 0x1003)\<rparr>) \<and>
   (word_of_int (- EPERM x86_hdr) :: u64) \<noteq> word_of_int (- ENOSYS x86_hdr)"
  by (simp add: vmx_handle_hypercall_def Let_def vmx_skip_emulated_instruction_eq set_rax_def
      vmcs_read64_def vmcs_read16_def x86_hdr_def example_env_def example_machine_def
      zero_registers_def fun_upd_twist)


text \<open>
  Claim C9. When the VMWRITE of the guest RIP succeeds (it does on a CPU that has just
  left the guest through this VMCS), \<^verbatim>\<open>vmx_handle_hypercall\<close> first advances the guest
  RIP by the length of VMCALL, once, and everything else happens in the state \<open>adv\<close> so
  reached: a denied call returns \<^verbatim>\<open>-EPERM\<close> with the RIP advanced, an unknown function
  code returns \<^verbatim>\<open>-ENOSYS\<close> with the RIP advanced (the message shows the old RIP), and
  the three known codes hand the advanced state to \<^verbatim>\<open>shutdown\<close>, \<^verbatim>\<open>cell_create\<close> and
  \<^verbatim>\<open>cell_destroy\<close>; the handler itself does not write the RIP again.
\<close>

theorem vmx_handle_hypercall_advances_rip_first:
  assumes "vmwrite_ok E (Guest GUEST_RIP)"
  shows "let adv = m\<lparr>vmcs := (vmcs m)(Guest GUEST_RIP :=
                       vmcs m (Guest GUEST_RIP) + ucast (X86_INST_LEN_VMCALL K))\<rparr>
         in vmx_skip_emulated_instruction E (X86_INST_LEN_VMCALL K) m = adv \<and>
            (hypercall_denied K m \<longrightarrow>
               vmx_handle_hypercall K E m = (Returned, set_rax (word_of_int (- EPERM K)) adv)) \<and>
            (\<not> hypercall_denied K m \<and> rax (guest_regs m) = JAILHOUSE_HC_DISABLE K \<longrightarrow>
               vmx_handle_hypercall K E m =
                 (case shutdown E adv of
                    (r, m2) \<Rightarrow>
                      if (word_of_int r :: u64) = 0
                      then vmx_cpu_deactivate_vmm K E (set_rax (word_of_int r) m2)
                      else (Returned, set_rax (word_of_int r) m2))) \<and>
            (\<not> hypercall_denied K m \<and> rax (guest_regs m) \<noteq> JAILHOUSE_HC_DISABLE K \<and>
             rax (guest_regs m) = JAILHOUSE_HC_CELL_CREATE K \<longrightarrow>
               vmx_handle_hypercall K E m =
                 (case cell_create E (rdi (guest_regs m)) adv of
                    (r, m2) \<Rightarrow> (Returned, set_rax (word_of_int r) m2))) \<and>
            (\<not> hypercall_denied K m \<and> rax (guest_regs m) \<noteq> JAILHOUSE_HC_DISABLE K \<and>
             rax (guest_regs m) \<noteq> JAILHOUSE_HC_CELL_CREATE K \<and>
             rax (guest_regs m) = JAILHOUSE_HC_CELL_DESTROY K \<longrightarrow>
               vmx_handle_hypercall K E m =
                 (case cell_destroy E (rdi (guest_regs m)) adv of
                    (r, m2) \<Rightarrow> (Returned, set_rax (word_of_int r) m2))) \<and>
            (\<not> hypercall_denied K m \<and> rax (guest_regs m) \<noteq> JAILHOUSE_HC_DISABLE K \<and>
             rax (guest_regs m) \<noteq> JAILHOUSE_HC_CELL_CREATE K \<and>
             rax (guest_regs m) \<noteq> JAILHOUSE_HC_CELL_DESTROY K \<longrightarrow>
               vmx_handle_hypercall K E m =
                 (Returned,
                  set_rax (word_of_int (- ENOSYS K))
                    (printk ''CPU %d: Unknown vmcall %d, RIP: %p''
                       [Num (ucast (cpu_id (cpu_data m))), Num (rax (guest_regs m)),
                        Num (vmcs m (Guest GUEST_RIP))] adv)))"
proof -
  have s: "vmx_skip_emulated_instruction E (X86_INST_LEN_VMCALL K) m =
           m\<lparr>vmcs := (vmcs m)(Guest GUEST_RIP :=
                       vmcs m (Guest GUEST_RIP) + ucast (X86_INST_LEN_VMCALL K))\<rparr>"
    using assms by (simp add: vmx_skip_emulated_instruction_eq)
  have d: "hypercall_denied K (m\<lparr>vmcs := (vmcs m)(Guest GUEST_RIP :=
                       vmcs m (Guest GUEST_RIP) + ucast (X86_INST_LEN_VMCALL K))\<rparr>) = hypercall_denied K m"
    using hypercall_denied_skip [of K E "X86_INST_LEN_VMCALL K" m] by (simp add: s)
  show ?thesis
    using d unfolding Let_def vmx_handle_hypercall_def s hypercall_denied_def
    by (auto simp add: set_rax_def vmcs_read64_def)
qed

theorem vmx_handle_hypercall_advances_rip_first_witness:
  "vmwrite_ok example_env (Guest GUEST_RIP) \<and>
   hypercall_denied x86_hdr
     (example_machine\<lparr>vmcs := (\<lambda>field. 0)(GUEST_SELECTOR CS := 0x33, Guest GUEST_RIP := 0x1000)\<rparr>) \<and>
   vmcs (snd (vmx_handle_hypercall x86_hdr example_env
                (example_machine\<lparr>vmcs := (\<lambda>field. 0)(GUEST_SELECTOR CS := 0x33,
                                                       Guest GUEST_RIP := 0x1000)\<rparr>)))
     (Guest GUEST_RIP) = 0x1003 \<and>
   \<not> hypercall_denied x86_hdr
       (example_machine\<lparr>guest_regs := zero_registers\<lparr>rax := 99\<rparr>,
                         vmcs := (\<lambda>field. 0)(Guest GUEST_RIP := 0x1000)\<rparr>) \<and>
   vmcs (snd (vmx_handle_hypercall x86_hdr example_env
                (example_machine\<lparr>guest_regs := zero_registers\<lparr>rax := 99\<rparr>,
                                  vmcs := (\<lambda>field. 0)(Guest GUEST_RIP := 0x1000)\<rparr>)))
     (Guest GUEST_RIP) = 0x1003"
proof -
  let ?m1 = "example_machine\<lparr>vmcs := (\<lambda>field. 0)(GUEST_SELECTOR CS := 0x33,
                                                   Guest GUEST_RIP := 0x1000)\<rparr>"
  let ?m2 = "example_machine\<lparr>guest_regs := zero_registers\<lparr>rax := 99\<rparr>,
                              vmcs := (\<lambda>field. 0)(Guest GUEST_RIP := 0x1000)\<rparr>"
  have w: "vmwrite_ok example_env (Guest GUEST_RIP)"
    by (simp add: example_env_def)
  have d1: "hypercall_denied x86_hdr ?m1"
    by (simp add: hypercall_denied_def vmcs_read16_def vmcs_read64_def)
  have d2: "\<not> hypercall_denied x86_hdr ?m2"
    by (simp add: hypercall_denied_def vmcs_read16_def vmcs_read64_def)
  have c: "rax (guest_regs ?m2) \<noteq> JAILHOUSE_HC_DISABLE x86_hdr"
    "rax (guest_regs ?m2) \<noteq> JAILHOUSE_HC_CELL_CREATE x86_hdr"
    "rax (guest_regs ?m2) \<noteq> JAILHOUSE_HC_CELL_DESTROY x86_hdr"
    by (simp_all add: x86_hdr_def)
  from vmx_handle_hypercall_advances_rip_first [OF w, of ?m1 x86_hdr] d1
  have r1: "vmcs (snd (vmx_handle_hypercall x86_hdr example_env ?m1)) (Guest GUEST_RIP) = 0x1003"
    by (simp add: Let_def set_rax_def x86_hdr_def)
  from vmx_handle_hypercall_advances_rip_first [OF w, of ?m2 x86_hdr] d2 c
  have r2: "vmcs (snd (vmx_handle_hypercall x86_hdr example_env ?m2)) (Guest GUEST_RIP) = 0x1003"
    by (simp add: Let_def set_rax_def printk_def emit_def x86_hdr_def)
  show ?thesis using w d1 d2 r1 r2 by simp
qed

lemma low4_of_low2: "(x :: u32) AND 3 \<noteq> 0 \<Longrightarrow> x AND 0x00f \<noteq> 0"
proof
  assume a: "x AND 3 \<noteq> 0" and b: "x AND 0x00f = 0"
  have "x AND 3 = (x AND 0x00f) AND 3"
    by (simp add: and.assoc)
  with a b show False by simp
qed

text \<open>
  Claim C7. For an APIC-access exit of linear read or linear write type (the exit reason
  being that of an APIC access and no other case label of the dispatcher):
  an access whose offset is not 4-byte-aligned is rejected by
  \<^verbatim>\<open>vmx_handle_apic_access\<close> with the fatal message, without consulting the APIC model,
  and the dispatcher then dumps the guest registers and stops the CPU. The offsets that are
  handed to the APIC model, with the page-table root taken from the guest's CR3, are
  exactly those whose low four bits are zero, and all of these are 4-byte-aligned; every
  other offset is rejected.
\<close>

theorem vmx_handle_apic_access_alignment:
  assumes "apic_access_linear K m"
    and "vmcs_read32 m (Info VM_EXIT_REASON) = EXIT_REASON_APIC_ACCESS K"
    and "EXIT_REASON_APIC_ACCESS K AND EXIT_REASONS_FAILED_VMENTRY K = 0"
    and "distinct (exit_reason_labels K)"
  shows "(apic_access_offset K m AND 3 \<noteq> 0 \<longrightarrow>
            vmx_handle_apic_access K E m =
              (False, panic_printk ''FATAL: Unhandled APIC access, qualification %x''
                        [Num (vmcs_read64 m (Info EXIT_QUALIFICATION))] m) \<and>
            vmx_handle_exit K E m =
              (Stopped,
               emit Panic_stop
                 (dump_guest_regs K
                    (panic_printk ''FATAL: Unhandled APIC access, qualification %x''
                       [Num (vmcs_read64 m (Info EXIT_QUALIFICATION))] m)))) \<and>
         (apic_access_offset K m AND 0x00f \<noteq> 0 \<longrightarrow>
            vmx_handle_apic_access K E m =
              (False, panic_printk ''FATAL: Unhandled APIC access, qualification %x''
                        [Num (vmcs_read64 m (Info EXIT_QUALIFICATION))] m)) \<and>
         (apic_access_offset K m AND 0x00f = 0 \<longrightarrow>
            apic_access_offset K m AND 3 = 0 \<and>
            vmx_handle_apic_access K E m =
              (case apic_mmio_access E (vmcs_read64 m (Guest GUEST_RIP))
                      (vmcs_read64 m (Guest GUEST_CR3) AND PAGE_ADDR_MASK K)
                      (drop_bit 4 (apic_access_offset K m))
                      (vmcs_read64 m (Info EXIT_QUALIFICATION) AND APIC_ACCESS_TYPE_LINEAR_WRITE K \<noteq> 0)
                      m of
                 (inst_len, m1) \<Rightarrow>
                   if inst_len = 0 then (False, m1)
                   else (True, vmx_skip_emulated_instruction E inst_len m1)))"
proof -
  have rej: "vmx_handle_apic_access K E m =
              (False, panic_printk ''FATAL: Unhandled APIC access, qualification %x''
                        [Num (vmcs_read64 m (Info EXIT_QUALIFICATION))] m)"
    if "apic_access_offset K m AND 0x00f \<noteq> 0"
    using that assms(1)
    by (simp add: vmx_handle_apic_access_def apic_access_offset_def apic_access_linear_def Let_def)
  have disp: "vmx_handle_exit K E m =
      (case vmx_handle_apic_access K E m of
         (handled, m1) \<Rightarrow> if handled then (Returned, m1) else dump_and_stop K m1)"
  proof -
    have ne: "EXIT_REASON_APIC_ACCESS K \<noteq> EXIT_REASON_EXCEPTION_NMI K"
      "EXIT_REASON_APIC_ACCESS K \<noteq> EXIT_REASON_PREEMPTION_TIMER K"
      "EXIT_REASON_APIC_ACCESS K \<noteq> EXIT_REASON_CPUID K"
      "EXIT_REASON_APIC_ACCESS K \<noteq> EXIT_REASON_VMCALL K"
      "EXIT_REASON_APIC_ACCESS K \<noteq> EXIT_REASON_CR_ACCESS K"
      "EXIT_REASON_APIC_ACCESS K \<noteq> EXIT_REASON_MSR_READ K"
      "EXIT_REASON_APIC_ACCESS K \<noteq> EXIT_REASON_MSR_WRITE K"
      using assms(4) by (auto simp add: exit_reason_labels_def)
    show ?thesis
      using assms(2,3) ne by (simp add: vmx_handle_exit_def Let_def)
  qed
  have acc: "vmx_handle_apic_access K E m =
              (case apic_mmio_access E (vmcs_read64 m (Guest GUEST_RIP))
                      (vmcs_read64 m (Guest GUEST_CR3) AND PAGE_ADDR_MASK K)
                      (drop_bit 4 (apic_access_offset K m))
                      (vmcs_read64 m (Info EXIT_QUALIFICATION) AND APIC_ACCESS_TYPE_LINEAR_WRITE K \<noteq> 0)
                      m of
                 (inst_len, m1) \<Rightarrow>
                   if inst_len = 0 then (False, m1)
                   else (True, vmx_skip_emulated_instruction E inst_len m1))"
    if "apic_access_offset K m AND 0x00f = 0"
    using that assms(1)
    by (simp add: vmx_handle_apic_access_def apic_access_offset_def apic_access_linear_def Let_def)
  show ?thesis
    using rej acc low4_of_low2 [of "apic_access_offset K m"]
    by (auto simp add: disp dump_and_stop_def panic_stop_def)
qed

theorem vmx_handle_apic_access_alignment_witness:
  "apic_access_linear x86_hdr
     (example_machine\<lparr>vmcs := (\<lambda>field. 0)(Info VM_EXIT_REASON := 44,
                                            Info EXIT_QUALIFICATION := 0x1082)\<rparr>) \<and>
   distinct (exit_reason_labels x86_hdr) \<and>
   apic_access_offset x86_hdr
     (example_machine\<lparr>vmcs := (\<lambda>field. 0)(Info VM_EXIT_REASON := 44,
                                            Info EXIT_QUALIFICATION := 0x1082)\<rparr>) AND 3 \<noteq> 0 \<and>
   fst (vmx_handle_exit x86_hdr example_env
          (example_machine\<lparr>vmcs := (\<lambda>field. 0)(Info VM_EXIT_REASON := 44,
                                                 Info EXIT_QUALIFICATION := 0x1082)\<rparr>)) = Stopped"
proof -
  let ?m = "example_machine\<lparr>vmcs := (\<lambda>field. 0)(Info VM_EXIT_REASON := 44,
                                                 Info EXIT_QUALIFICATION := 0x1082)\<rparr>"
  have 1: "apic_access_linear x86_hdr ?m"
    by (simp add: apic_access_linear_def vmcs_read64_def x86_hdr_def)
  have 2: "vmcs_read32 ?m (Info VM_EXIT_REASON) = EXIT_REASON_APIC_ACCESS x86_hdr"
    by (simp add: vmcs_read32_def vmcs_read64_def x86_hdr_def)
  have 3: "EXIT_REASON_APIC_ACCESS x86_hdr AND EXIT_REASONS_FAILED_VMENTRY x86_hdr = 0"
    by (simp add: x86_hdr_def)
  have 4: "distinct (exit_reason_labels x86_hdr)"
    by (simp add: exit_reason_labels_def x86_hdr_def)
  have 5: "apic_access_offset x86_hdr ?m AND 3 \<noteq> 0"
    by (simp add: apic_access_offset_def vmcs_read64_def x86_hdr_def)
  from vmx_handle_apic_access_alignment [OF 1 2 3 4, of example_env] 5
  have "fst (vmx_handle_exit x86_hdr example_env ?m) = Stopped" by simp
  then show ?thesis using 1 4 5 by simp
qed

section \<open>Properties of CPU bring-up and teardown\<close>

text \<open>
  Claim C8. Calling \<^verbatim>\<open>vmx_cpu_exit\<close> twice in a row leaves the same state as calling it
  once, whatever the hardware answers in either call: the first call leaves the
  enablement state OFF, and from that state the second call returns at once.
\<close>

theorem vmx_cpu_exit_idempotent:
  "vmx_cpu_exit K E' (vmx_cpu_exit K E m) = vmx_cpu_exit K E m \<and>
   vmx_state (cpu_data (vmx_cpu_exit K E m)) = VMXOFF"
  by (simp add: vmx_cpu_exit_def Let_def set_vmx_state_def emit_def vmcs_clear_def write_cr4_def)




















lemma vmx_cpu_init_no_vmx:
  "cpuid_ecx E 1 AND X86_FEATURE_VMX K = 0 \<Longrightarrow> vmx_cpu_init K E m = (- ENODEV K, m)"
  by (simp add: vmx_cpu_init_def)

lemma vmx_cpu_init_busy:
  "cpuid_ecx E 1 AND X86_FEATURE_VMX K \<noteq> 0 \<Longrightarrow> cr4 m AND X86_CR4_VMXE K \<noteq> 0 \<Longrightarrow>
   vmx_cpu_init K E m = (- EBUSY K, m)"
  by (simp add: vmx_cpu_init_def)

lemma read_msr_offs [simp]: "read_msr (m\<lparr>vmx_true_msr_offs := x\<rparr>) i = read_msr m i"
  by (simp add: read_msr_def)

lemma read_msr_cpu_data [simp]: "read_msr (m\<lparr>cpu_data := x\<rparr>) i = read_msr m i"
  by (simp add: read_msr_def)



lemma vmx_cpu_init_locked_out:
  assumes "cpuid_ecx E 1 AND X86_FEATURE_VMX K \<noteq> 0" and "cr4 m AND X86_CR4_VMXE K = 0"
    and "\<not> vmx_capability_missing K m" and "feature_control_locked_out K m"
  shows "vmx_cpu_init K E m =
     (- ENODEV K,
      m\<lparr>vmx_true_msr_offs := vmx_true_msr_offs_in_use K m,
        cpu_data := (cpu_data m)
          \<lparr>vmxon_region := \<lparr>revision_id = ucast (read_msr m (MSR_IA32_VMX_BASIC K)),
                            shadow_indicator = False\<rparr>,
           vmcs_region := \<lparr>revision_id = ucast (read_msr m (MSR_IA32_VMX_BASIC K)),
                           shadow_indicator = False\<rparr>\<rparr>\<rparr>)"
proof (cases "read_msr m (MSR_IA32_VMX_BASIC K) AND push_bit 55 1 \<noteq> 0")
  case True
  with assms show ?thesis
    by (auto simp add: vmx_cpu_init_def vmx_capability_missing_def feature_control_locked_out_def
        vmx_true_msr_offs_in_use_def Let_def)
next
  case False
  with assms show ?thesis
    by (auto simp add: vmx_cpu_init_def vmx_capability_missing_def feature_control_locked_out_def
        vmx_true_msr_offs_in_use_def Let_def)
qed

lemma vmx_cpu_init_missing:
  assumes vmx: "cpuid_ecx E 1 AND X86_FEATURE_VMX K \<noteq> 0" and cr: "cr4 m AND X86_CR4_VMXE K = 0"
    and missing: "vmx_capability_missing K m"
  shows "fst (vmx_cpu_init K E m) = - EIO K \<and>
         (snd (vmx_cpu_init K E m) = m \<or>
          snd (vmx_cpu_init K E m) = m\<lparr>vmx_true_msr_offs := vmx_true_msr_offs_in_use K m\<rparr>)"
proof -
  define vmx_basic where "vmx_basic = read_msr m (MSR_IA32_VMX_BASIC K)"
  define offs where "offs = vmx_true_msr_offs_in_use K m"
  define pin where "pin = drop_bit 32 (read_msr m (MSR_IA32_VMX_PINBASED_CTLS K + offs))"
  define proc where "proc = drop_bit 32 (read_msr m (MSR_IA32_VMX_PROCBASED_CTLS K + offs))"
  define proc2 where "proc2 = drop_bit 32 (read_msr m (MSR_IA32_VMX_PROCBASED_CTLS2 K))"
  define ept_cap where "ept_cap = read_msr m (MSR_IA32_VMX_EPT_VPID_CAP K)"
  define c_size where "c_size \<longleftrightarrow> PAGE_SIZE K < (drop_bit 32 vmx_basic AND 0x1fff)"
  define c_type where "c_type \<longleftrightarrow> drop_bit 50 vmx_basic AND 0xf \<noteq> EPT_TYPE_WRITEBACK K"
  define c_pin where "c_pin \<longleftrightarrow> pin AND PIN_BASED_NMI_EXITING K = 0 \<or>
                                  pin AND PIN_BASED_VMX_PREEMPTION_TIMER K = 0"
  define c_proc where "c_proc \<longleftrightarrow> proc AND CPU_BASED_USE_IO_BITMAPS K = 0 \<or>
                                    proc AND CPU_BASED_USE_MSR_BITMAPS K = 0 \<or>
                                    proc AND CPU_BASED_ACTIVATE_SECONDARY_CONTROLS K = 0"
  define c_proc2 where "c_proc2 \<longleftrightarrow>
       proc2 AND SECONDARY_EXEC_VIRTUALIZE_APIC_ACCESSES K = 0 \<or>
       proc2 AND SECONDARY_EXEC_ENABLE_EPT K = 0 \<or>
       ept_cap AND EPT_MANDATORY_FEATURES K \<noteq> EPT_MANDATORY_FEATURES K \<or>
       ept_cap AND (EPT_INVEPT_SINGLE K OR EPT_INVEPT_GLOBAL K) = 0 \<or>
       proc2 AND SECONDARY_EXEC_UNRESTRICTED_GUEST K = 0"
  define c_misc where "c_misc \<longleftrightarrow> read_msr m (MSR_IA32_VMX_MISC K) AND VMX_MISC_ACTIVITY_HLT K = 0"
  define m1 where "m1 = (if vmx_basic AND push_bit 55 1 \<noteq> 0
                     then m\<lparr>vmx_true_msr_offs :=
                            MSR_IA32_VMX_TRUE_PINBASED_CTLS K - MSR_IA32_VMX_PINBASED_CTLS K\<rparr>
                     else m)"
  have o1: "vmx_true_msr_offs m1 = offs"
    by (simp add: m1_def offs_def vmx_true_msr_offs_in_use_def vmx_basic_def)
  have r1: "\<And>i. read_msr m1 i = read_msr m i"
    by (simp add: m1_def)
  have s1: "m1 = m \<or> m1 = m\<lparr>vmx_true_msr_offs := vmx_true_msr_offs_in_use K m\<rparr>"
    by (simp add: m1_def vmx_true_msr_offs_in_use_def vmx_basic_def)
  have any: "c_size \<or> c_type \<or> c_pin \<or> c_proc \<or> c_proc2 \<or> c_misc"
    using missing
    unfolding vmx_capability_missing_def Let_def c_size_def c_type_def c_pin_def c_proc_def
      c_proc2_def c_misc_def pin_def proc_def proc2_def ept_cap_def offs_def vmx_basic_def
    by blast
  have eq: "vmx_cpu_init K E m =
     (if c_size then (- EIO K, m)
      else if c_type then (- EIO K, m)
      else if c_pin then (- EIO K, m1)
      else if c_proc then (- EIO K, m1)
      else if c_proc2 then (- EIO K, m1)
      else if c_misc then (- EIO K, m1)
      else vmx_cpu_init K E m)"
    using vmx cr
    unfolding vmx_cpu_init_def [of K E m] Let_def
    unfolding vmx_basic_def [symmetric] m1_def [symmetric]
    unfolding o1 r1
    unfolding pin_def [symmetric] proc_def [symmetric] proc2_def [symmetric] ept_cap_def [symmetric]
    unfolding c_size_def [symmetric] c_type_def [symmetric] c_pin_def [symmetric]
      c_proc_def [symmetric] c_proc2_def [symmetric] c_misc_def [symmetric]
    by simp
  show ?thesis
    using any s1 by (subst eq, subst (2) eq, subst (3) eq) auto
qed




text \<open>
  Claim C6, amended. The claim as stated fails: the checks of \<^verbatim>\<open>vmx_cpu_init\<close> come in
  an order, and an earlier one decides. What holds: a CPU without the VMX feature gets
  \<^verbatim>\<open>-ENODEV\<close>; with the feature, a CPU on which CR4.VMXE is already set gets
  \<^verbatim>\<open>-EBUSY\<close>; with the feature and CR4.VMXE clear, any missing required capability
  gives \<^verbatim>\<open>-EIO\<close>; and with all capabilities present, a feature control register that
  is locked without VMXON being enabled gives \<^verbatim>\<open>-ENODEV\<close>.
\<close>

theorem vmx_cpu_init_error_codes:
  "(cpuid_ecx E 1 AND X86_FEATURE_VMX K = 0 \<longrightarrow> fst (vmx_cpu_init K E m) = - ENODEV K) \<and>
   (cpuid_ecx E 1 AND X86_FEATURE_VMX K \<noteq> 0 \<and> cr4 m AND X86_CR4_VMXE K \<noteq> 0 \<longrightarrow>
      fst (vmx_cpu_init K E m) = - EBUSY K) \<and>
   (cpuid_ecx E 1 AND X86_FEATURE_VMX K \<noteq> 0 \<and> cr4 m AND X86_CR4_VMXE K = 0 \<and>
    vmx_capability_missing K m \<longrightarrow>
      fst (vmx_cpu_init K E m) = - EIO K) \<and>
   (cpuid_ecx E 1 AND X86_FEATURE_VMX K \<noteq> 0 \<and> cr4 m AND X86_CR4_VMXE K = 0 \<and>
    \<not> vmx_capability_missing K m \<and> feature_control_locked_out K m \<longrightarrow>
      fst (vmx_cpu_init K E m) = - ENODEV K)"
  using vmx_cpu_init_missing [of E K m] vmx_cpu_init_locked_out [of E K m]
  by (simp add: vmx_cpu_init_no_vmx vmx_cpu_init_busy)

theorem vmx_cpu_init_error_codes_witness:
  "cpuid_ecx example_env 1 AND X86_FEATURE_VMX x86_hdr \<noteq> 0 \<and>
   vmx_capability_missing x86_hdr example_machine \<and>
   fst (vmx_cpu_init x86_hdr example_env example_machine) = - 5 \<and>
   fst (vmx_cpu_init x86_hdr example_env (example_machine\<lparr>cr4 := 0x2000\<rparr>)) = - 16 \<and>
   \<not> vmx_capability_missing x86_hdr (example_machine\<lparr>msr := capable_msr(0x3a := 1)\<rparr>) \<and>
   feature_control_locked_out x86_hdr (example_machine\<lparr>msr := capable_msr(0x3a := 1)\<rparr>) \<and>
   fst (vmx_cpu_init x86_hdr example_env (example_machine\<lparr>msr := capable_msr(0x3a := 1)\<rparr>)) = - 19"
proof -
  have v: "cpuid_ecx example_env 1 AND X86_FEATURE_VMX x86_hdr \<noteq> 0"
    by (simp add: cpuid_ecx_def example_env_def x86_hdr_def)
  have c: "cr4 example_machine AND X86_CR4_VMXE x86_hdr = 0"
    "cr4 (example_machine\<lparr>msr := capable_msr(0x3a := 1)\<rparr>) AND X86_CR4_VMXE x86_hdr = 0"
    "cr4 (example_machine\<lparr>cr4 := 0x2000\<rparr>) AND X86_CR4_VMXE x86_hdr \<noteq> 0"
    by (simp_all add: example_machine_def x86_hdr_def)
  have mi: "vmx_capability_missing x86_hdr example_machine"
    by (simp add: vmx_capability_missing_def Let_def read_msr_def example_machine_def x86_hdr_def)
  have nm: "\<not> vmx_capability_missing x86_hdr (example_machine\<lparr>msr := capable_msr(0x3a := 1)\<rparr>)"
    by (simp add: vmx_capability_missing_def vmx_true_msr_offs_in_use_def Let_def read_msr_def
        example_machine_def x86_hdr_def capable_msr_def)
  have lo: "feature_control_locked_out x86_hdr (example_machine\<lparr>msr := capable_msr(0x3a := 1)\<rparr>)"
    by (simp add: feature_control_locked_out_def Let_def read_msr_def x86_hdr_def)
  from vmx_cpu_init_error_codes [of example_env x86_hdr example_machine] v c mi
  have 1: "fst (vmx_cpu_init x86_hdr example_env example_machine) = - 5"
    by (simp add: x86_hdr_def)
  from vmx_cpu_init_error_codes [of example_env x86_hdr "example_machine\<lparr>cr4 := 0x2000\<rparr>"] v c
  have 2: "fst (vmx_cpu_init x86_hdr example_env (example_machine\<lparr>cr4 := 0x2000\<rparr>)) = - 16"
    by (simp add: x86_hdr_def)
  from vmx_cpu_init_error_codes
         [of example_env x86_hdr "example_machine\<lparr>msr := capable_msr(0x3a := 1)\<rparr>"] v c nm lo
  have 3: "fst (vmx_cpu_init x86_hdr example_env
                  (example_machine\<lparr>msr := capable_msr(0x3a := 1)\<rparr>)) = - 19"
    by (simp add: x86_hdr_def)
  show ?thesis using v mi nm lo 1 2 3 by simp
qed

theorem vmx_cpu_init_error_codes_counterexample:
  "vmx_capability_missing x86_hdr
     (example_machine\<lparr>cr4 := 0x2000, msr := capable_msr(0x48b := 0x0000000300000000)\<rparr>) \<and>
   vmx_cpu_init x86_hdr example_env
     (example_machine\<lparr>cr4 := 0x2000, msr := capable_msr(0x48b := 0x0000000300000000)\<rparr>) =
     (- EBUSY x86_hdr,
      example_machine\<lparr>cr4 := 0x2000, msr := capable_msr(0x48b := 0x0000000300000000)\<rparr>) \<and>
   - EBUSY x86_hdr \<noteq> - EIO x86_hdr"
proof -
  let ?m = "example_machine\<lparr>cr4 := 0x2000, msr := capable_msr(0x48b := 0x0000000300000000)\<rparr>"
  have "drop_bit 32 (read_msr ?m (MSR_IA32_VMX_PROCBASED_CTLS2 x86_hdr)) AND
          SECONDARY_EXEC_UNRESTRICTED_GUEST x86_hdr = 0"
    by (simp add: read_msr_def x86_hdr_def)
  then have "vmx_capability_missing x86_hdr ?m"
    unfolding vmx_capability_missing_def Let_def by blast
  moreover have "vmx_cpu_init x86_hdr example_env ?m = (- EBUSY x86_hdr, ?m)"
    by (rule vmx_cpu_init_busy)
       (simp_all add: cpuid_ecx_def example_env_def example_machine_def x86_hdr_def)
  moreover have "- EBUSY x86_hdr \<noteq> - EIO x86_hdr"
    by (simp add: x86_hdr_def)
  ultimately show ?thesis by simp
qed






section \<open>Properties of cell teardown and of the VT-d back-end\<close>

lemma vmx_cell_exit_loop_Some:
  "i + n \<le> length b \<Longrightarrow> i + n \<le> length p \<Longrightarrow> i + n \<le> length l \<Longrightarrow>
   \<exists>b'. vmx_cell_exit_loop i n b p l = Some b'"
  by (induction n arbitrary: i b) auto

lemma vmx_cell_exit_loop_result:
  "vmx_cell_exit_loop i n b p l = Some b' \<Longrightarrow>
   length b' = length b \<and>
   (\<forall>j. b' ! j = (if i \<le> j \<and> j < i + n then b ! j AND (p ! j OR l ! j) else b ! j))"
proof (induction n arbitrary: i b)
  case 0
  then show ?case by auto
next
  case (Suc n)
  from Suc.prems have in_range: "i < length b" "i < length p" "i < length l"
    and rest: "vmx_cell_exit_loop (Suc i) n (b[i := b ! i AND (p ! i OR l ! i)]) p l = Some b'"
    by (auto split: if_splits)
  from Suc.IH [OF rest] have len: "length b' = length b"
    and el: "\<And>j. b' ! j = (if Suc i \<le> j \<and> j < Suc i + n
                  then (b[i := b ! i AND (p ! i OR l ! i)]) ! j AND (p ! j OR l ! j)
                  else (b[i := b ! i AND (p ! i OR l ! i)]) ! j)"
    by auto
  show ?case
  proof (intro conjI allI)
    show "length b' = length b" by (rule len)
  next
    fix j
    show "b' ! j = (if i \<le> j \<and> j < i + Suc n then b ! j AND (p ! j OR l ! j) else b ! j)"
      using el [of j] in_range by (cases "j = i") auto
  qed
qed

lemma port_accessible_and_or:
  "\<not> bit ((x :: u8) AND (y OR z)) k \<longleftrightarrow> \<not> bit x k \<or> (\<not> bit y k \<and> \<not> bit z k)"
  by (auto simp add: bit_and_iff bit_or_iff)

text \<open>
  Claim C5. Let the compared range, the smaller of the two configured bitmap sizes, fit
  into the root cell's live I/O bitmap (otherwise the loop of the source writes beyond the
  array). Then \<^verbatim>\<open>vmx_cell_exit\<close> returns, and for every port whose byte lies in the
  compared range, the root cell's live bitmap marks the port accessible afterwards if
  and only if it did so before, or the exiting cell's configured bitmap and the root
  cell's configured bitmap both mark it accessible.
\<close>

theorem vmx_cell_exit_restores_ports:
  assumes fits: "min (pio_bitmap_size (config (cells s c)))
                     (pio_bitmap_size (config (cells s Linux_cell)))
                 \<le> length (io_bitmap (vmx (cells s Linux_cell)))"
  shows "\<exists>s'. vmx_cell_exit K E c s = Some s' \<and>
           (\<forall>port. port div 8 < min (pio_bitmap_size (config (cells s c)))
                                     (pio_bitmap_size (config (cells s Linux_cell))) \<longrightarrow>
              (port_accessible (io_bitmap (vmx (cells s' Linux_cell))) port \<longleftrightarrow>
               port_accessible (io_bitmap (vmx (cells s Linux_cell))) port \<or>
               (port_accessible (pio_bitmap (config (cells s c))) port \<and>
                port_accessible (pio_bitmap (config (cells s Linux_cell))) port)))"
proof -
  define n where "n = min (pio_bitmap_size (config (cells s c)))
                          (pio_bitmap_size (config (cells s Linux_cell)))"
  define b where "b = io_bitmap (vmx (cells s Linux_cell))"
  define p where "p = pio_bitmap (config (cells s c))"
  define l where "l = pio_bitmap (config (cells s Linux_cell))"
  have np: "n \<le> length p" and nl: "n \<le> length l"
    by (simp_all add: n_def p_def l_def pio_bitmap_size_def)
  have nb: "n \<le> length b" using fits by (simp add: n_def b_def)
  from vmx_cell_exit_loop_Some [of 0 n b p l] nb np nl
  obtain b' where loop: "vmx_cell_exit_loop 0 n b p l = Some b'" by auto
  from vmx_cell_exit_loop_result [OF loop]
  have el: "\<And>j. j < n \<Longrightarrow> b' ! j = b ! j AND (p ! j OR l ! j)" by simp
  have sz: "(if pio_bitmap_size (config (cells s Linux_cell)) < pio_bitmap_size (config (cells s c))
             then pio_bitmap_size (config (cells s Linux_cell))
             else pio_bitmap_size (config (cells s c))) = n"
    by (simp add: n_def min_def)
  have res: "\<exists>s'. vmx_cell_exit K E c s = Some s' \<and> io_bitmap (vmx (cells s' Linux_cell)) = b'"
    using loop by (simp add: vmx_cell_exit_def Let_def sz b_def p_def l_def cong: if_cong)
  then obtain s' where s': "vmx_cell_exit K E c s = Some s'"
    and bm: "io_bitmap (vmx (cells s' Linux_cell)) = b'" by blast
  have "port_accessible b' port \<longleftrightarrow>
          port_accessible b port \<or> (port_accessible p port \<and> port_accessible l port)"
    if "port div 8 < n" for port
    using el [OF that] by (simp add: port_accessible_def port_accessible_and_or)
  then show ?thesis
    using s' bm by (simp add: n_def b_def p_def l_def)
qed

theorem vmx_cell_exit_restores_ports_witness:
  "min (pio_bitmap_size (config (cells example_cells_hv (Cell 1))))
       (pio_bitmap_size (config (cells example_cells_hv Linux_cell)))
     \<le> length (io_bitmap (vmx (cells example_cells_hv Linux_cell))) \<and>
   (case vmx_cell_exit x86_hdr example_env (Cell 1) example_cells_hv of
      None \<Rightarrow> False
    | Some s' \<Rightarrow>
        port_accessible (io_bitmap (vmx (cells s' Linux_cell))) 0 \<and>
        \<not> port_accessible (io_bitmap (vmx (cells s' Linux_cell))) 1) \<and>
   \<not> port_accessible (io_bitmap (vmx (cells example_cells_hv Linux_cell))) 0"
proof -
  have f: "min (pio_bitmap_size (config (cells example_cells_hv (Cell 1))))
               (pio_bitmap_size (config (cells example_cells_hv Linux_cell)))
           \<le> length (io_bitmap (vmx (cells example_cells_hv Linux_cell)))"
    by (simp add: example_cells_hv_def example_hv_def example_cell_def pio_bitmap_size_def)
  have m: "min (pio_bitmap_size (config (cells example_cells_hv (Cell 1))))
               (pio_bitmap_size (config (cells example_cells_hv Linux_cell))) = 1"
    by (simp add: example_cells_hv_def example_hv_def example_cell_def pio_bitmap_size_def)
  have a: "\<not> port_accessible (io_bitmap (vmx (cells example_cells_hv Linux_cell))) 0"
    "\<not> port_accessible (io_bitmap (vmx (cells example_cells_hv Linux_cell))) 1"
    "port_accessible (pio_bitmap (config (cells example_cells_hv (Cell 1)))) 0"
    "port_accessible (pio_bitmap (config (cells example_cells_hv Linux_cell))) 0"
    "\<not> port_accessible (pio_bitmap (config (cells example_cells_hv (Cell 1)))) 1"
    by (simp_all add: port_accessible_def example_cells_hv_def example_hv_def example_cell_def
        bit_numeral_iff bit_iff_odd)
  from vmx_cell_exit_restores_ports [OF f, of x86_hdr example_env]
  obtain s' where s': "vmx_cell_exit x86_hdr example_env (Cell 1) example_cells_hv = Some s'"
    and r: "\<And>port. port div 8 < 1 \<Longrightarrow>
              (port_accessible (io_bitmap (vmx (cells s' Linux_cell))) port \<longleftrightarrow>
               port_accessible (io_bitmap (vmx (cells example_cells_hv Linux_cell))) port \<or>
               (port_accessible (pio_bitmap (config (cells example_cells_hv (Cell 1)))) port \<and>
                port_accessible (pio_bitmap (config (cells example_cells_hv Linux_cell))) port))"
    unfolding m by blast
  from r [of 0] r [of 1] a
  have "port_accessible (io_bitmap (vmx (cells s' Linux_cell))) 0"
    "\<not> port_accessible (io_bitmap (vmx (cells s' Linux_cell))) 1"
    by simp_all
  then show ?thesis using f a s' by simp
qed

text \<open>
  Claim C10. Once a remapping unit has been discovered, \<^verbatim>\<open>vtd_cell_init\<close> for a cell
  whose identity is not below the domain-identifier cap returns \<^verbatim>\<open>-ERANGE\<close> and leaves
  the whole state as it was: no page has been allocated, the cell's domain page table
  pointer, the root entries and the context entries are untouched.
\<close>

theorem vtd_cell_init_erange:
  assumes "dmar_units s \<noteq> 0" and "dmar_num_did s \<le> cell_id (cells s c)"
  shows "vtd_cell_init K E c s = Some (- ERANGE K, s)"
  using assms by (simp add: vtd_cell_init_def Let_def)

theorem vtd_cell_init_erange_witness:
  "dmar_units (example_hv\<lparr>dmar_units := 1, dmar_num_did := 16,
                  cells := (\<lambda>c. example_cell\<lparr>cell_id := 16\<rparr>)\<rparr>) \<noteq> 0 \<and>
   vtd_cell_init x86_hdr example_env (Cell 1)
     (example_hv\<lparr>dmar_units := 1, dmar_num_did := 16,
                  cells := (\<lambda>c. example_cell\<lparr>cell_id := 16\<rparr>)\<rparr>) =
   Some (- 34, example_hv\<lparr>dmar_units := 1, dmar_num_did := 16,
                  cells := (\<lambda>c. example_cell\<lparr>cell_id := 16\<rparr>)\<rparr>)"
  using vtd_cell_init_erange [of "example_hv\<lparr>dmar_units := 1, dmar_num_did := 16,
                  cells := (\<lambda>c. example_cell\<lparr>cell_id := 16\<rparr>)\<rparr>" "Cell 1" x86_hdr example_env]
  by (simp add: x86_hdr_def example_hv_def)

text \<open>
  Claim C4, amended. The claim as stated fails. A DMAR table that is present but does not
  start with a remapping hardware unit leaves zero units discovered, and \<^verbatim>\<open>vtd_init\<close>
  answers \<^verbatim>\<open>-EIO\<close>, not success. What holds: when the DMAR table is absent,
  \<^verbatim>\<open>vtd_init\<close> returns 0, having printed a warning and discovered no unit; and while no
  unit has been discovered, \<^verbatim>\<open>vtd_cell_init\<close> and \<^verbatim>\<open>vtd_map_memory_region\<close> return 0
  and \<^verbatim>\<open>vtd_unmap_memory_region\<close> returns, all three leaving the state as it was.
  (\<^verbatim>\<open>vtd_linux_cell_shrink\<close> and \<^verbatim>\<open>vtd_cell_exit\<close> are left out: they lack the check for
  zero units that the other three make; see the lemma after the examples.)
\<close>

theorem vtd_without_units:
  "(acpi_find_table_DMAR E = None \<longrightarrow>
      vtd_init K E s = Some (0, hv_printk ''WARNING: No VT-d support found!'' [] s) \<and>
      dmar_units (hv_printk ''WARNING: No VT-d support found!'' [] s) = dmar_units s) \<and>
   (dmar_units s = 0 \<longrightarrow>
      vtd_cell_init K E c s = Some (0, s) \<and>
      vtd_map_memory_region K E c mem s = (0, s) \<and>
      vtd_unmap_memory_region K E c mem s = s)"
  by (simp add: vtd_init_def vtd_cell_init_def vtd_map_memory_region_def
      vtd_unmap_memory_region_def hv_printk_def hv_emit_def Let_def)

theorem vtd_without_units_witness:
  "acpi_find_table_DMAR example_env = None \<and> dmar_units example_hv = 0 \<and>
   vtd_init x86_hdr example_env example_hv =
     Some (0, example_hv\<lparr>console := [Printk ''WARNING: No VT-d support found!'' []]\<rparr>) \<and>
   vtd_cell_init x86_hdr example_env (Cell 1) example_hv = Some (0, example_hv)"
  using vtd_without_units [of example_env x86_hdr example_hv "Cell 1"]
  by (simp add: example_env_def example_hv_def hv_printk_def hv_emit_def)

theorem vtd_without_units_counterexample:
  "vtd_init x86_hdr (example_env\<lparr>acpi_find_table_DMAR := Some example_dmar_no_drhd\<rparr>) example_hv
     = Some (- EIO x86_hdr, example_hv) \<and>
   dmar_units example_hv = 0 \<and> - EIO x86_hdr \<noteq> 0"
  by (simp add: vtd_init_def x86_hdr_def example_env_def example_dmar_no_drhd_def example_hv_def)

text \<open>
  \<^verbatim>\<open>vtd_cell_exit\<close> with zero units discovered is not a no-op: for a cell with a PCI
  device that the root cell's configuration lists as well, it allocates a context-entry
  table and enters it into the root entry of the device's bus.
\<close>

lemma vtd_cell_exit_without_units_changes_state:
  "dmar_units example_hv = 0 \<and>
   map_option (\<lambda>s'. lo_word (root_entry_table s' 0))
     (vtd_cell_exit x86_hdr example_env (Cell 1)
        (example_hv\<lparr>cells := (\<lambda>c. example_cell\<lparr>config := (config example_cell)
                                       \<lparr>pci_devices := [example_device]\<rparr>\<rparr>)\<rparr>))
     = Some 0x1001 \<and>
   lo_word (root_entry_table example_hv 0) = 0"
  by (simp add: vtd_cell_exit_def vtd_remove_device_from_cell_def vtd_return_device_to_linux_def
      vtd_add_device_to_cell_def vtd_add_device_to_cell_entry_def vtd_flush_domain_caches_def
      hv_printk_def hv_emit_def Let_def
      x86_hdr_def example_env_def example_hv_def example_cell_def example_device_def)


end
